theory Spec2Isabelle
  imports Main
begin

section \<open>Errors and outcomes\<close>

text \<open>
  The exceptions the C++ sources throw, as values. \<open>AssertionFailed\<close> stands for a failed
  \<^verbatim>\<open>assert\<close> and \<open>NullPointerDereference\<close> for a member access through a null pointer;
  \<open>OutOfRange\<close> is \<^verbatim>\<open>std::out_of_range\<close> from \<^verbatim>\<open>at\<close>. The first two end the
  process rather than unwind, and are kept as error values so that no path of the source
  is left out of the model.
\<close>

datatype error =
    RecordNotFoundError int int
  | PageNotExistError int
  | InternalError string
  | TableNotFoundError string
  | ColumnNotFoundError string
  | AmbiguousColumnError string
  | IncompatibleTypeError string string
  | StringOverflowError
  | TransactionAbortException
  | UnixError
  | OutOfRange
  | AssertionFailed
  | NullPointerDereference

text \<open>
  A C++ member function mutates its object and then returns or throws; the mutations made
  before a \<^verbatim>\<open>throw\<close> stay. An outcome therefore carries the state in both cases.
  \<open>None\<close> is a call that never returns (a thread blocked on a latch it already holds, an
  unbounded recursion).
\<close>

type_synonym ('a, 's) outcome = "((error + 'a) \<times> 's) option"

definition bind_o :: "('a, 's) outcome \<Rightarrow> ('a \<Rightarrow> 's \<Rightarrow> ('b, 's) outcome) \<Rightarrow> ('b, 's) outcome" where
  "bind_o m f =
     (case m of
        None \<Rightarrow> None
      | Some (Inl e, s) \<Rightarrow> Some (Inl e, s)
      | Some (Inr x, s) \<Rightarrow> f x s)"

section \<open>Log manager (recovery/log\_manager.cpp)\<close>

type_synonym lsn_t = int
type_synonym txn_id_t = int

definition INVALID_LSN :: lsn_t where
  "INVALID_LSN = -1"

datatype LogType = UPDATE | INSERT | DELETE | BEGIN | COMMIT | ABORT

record LogRecord =
  log_type :: LogType
  lsn :: lsn_t
  log_tot_len :: int
  log_tid :: txn_id_t
  log_prev_lsn :: lsn_t

definition LOG_HEADER_SIZE :: int where
  \<comment> \<open>Modelled from the spec: the log record classes are declared in log\_manager.h, which
      is not among the sources. The spec gives the fixed header as
      \<open>{log_type: u8, lsn: i64, log_tot_len: u32, txn_id: i64, prev_lsn: i64}\<close>; a BEGIN,
      COMMIT or ABORT record is the header alone.\<close>
  "LOG_HEADER_SIZE = 1 + 8 + 4 + 8 + 8"

definition BeginLogRecord :: "txn_id_t \<Rightarrow> LogRecord" where
  \<comment> \<open>Modelled from the spec: constructor of a header-only record (see above).\<close>
  "BeginLogRecord tid =
     \<lparr>log_type = BEGIN, lsn = INVALID_LSN, log_tot_len = LOG_HEADER_SIZE,
      log_tid = tid, log_prev_lsn = INVALID_LSN\<rparr>"

definition CommitLogRecord :: "txn_id_t \<Rightarrow> LogRecord" where
  \<comment> \<open>Modelled from the spec: constructor of a header-only record (see above).\<close>
  "CommitLogRecord tid =
     \<lparr>log_type = COMMIT, lsn = INVALID_LSN, log_tot_len = LOG_HEADER_SIZE,
      log_tid = tid, log_prev_lsn = INVALID_LSN\<rparr>"

definition AbortLogRecord :: "txn_id_t \<Rightarrow> LogRecord" where
  \<comment> \<open>Modelled from the spec: constructor of a header-only record (see above).\<close>
  "AbortLogRecord tid =
     \<lparr>log_type = ABORT, lsn = INVALID_LSN, log_tot_len = LOG_HEADER_SIZE,
      log_tid = tid, log_prev_lsn = INVALID_LSN\<rparr>"

text \<open>
  The log manager with its single buffer and the log file of the disk manager behind it.
  \<^item> \<open>log_buffer\<close> holds the records serialized into \<^verbatim>\<open>buffer_[0 .. offset_)\<close>, oldest
    first; the byte image of a record is kept as the record, which takes
    \<open>log_tot_len\<close> bytes.
  \<^item> \<open>LOG_BUFFER_SIZE\<close> is the constant of that name; its declaration is not among the
    sources, so it is a field.
  \<^item> \<open>latch\<close> is \<^verbatim>\<open>std::mutex latch_\<close>: \<open>True\<close> while held. The mutex is not
    recursive, and the model follows one thread, so locking it while it is held never
    returns.
  \<^item> \<open>log_file\<close> is what \<^verbatim>\<open>DiskManager::write_log\<close> has written, and \<open>write_log_fails\<close>
    says whether the next write raises.
\<close>

record LogManager =
  global_lsn :: lsn_t
  persist_lsn :: lsn_t
  log_buffer :: "LogRecord list"
  buffer_offset :: int
  LOG_BUFFER_SIZE :: int
  latch :: bool
  log_file :: "LogRecord list"
  write_log_fails :: bool

definition is_full :: "LogManager \<Rightarrow> int \<Rightarrow> bool" where
  \<comment> \<open>Modelled from the spec: \<^verbatim>\<open>LogBuffer::is_full\<close> is declared in log\_manager.h, not
      among the sources; the spec has it as "the in-memory buffer cannot hold the
      serialized record".\<close>
  "is_full lm append_size \<longleftrightarrow> buffer_offset lm + append_size > LOG_BUFFER_SIZE lm"

definition write_log :: "LogManager \<Rightarrow> (unit, LogManager) outcome" where
  \<comment> \<open>Modelled from the spec: \<^verbatim>\<open>DiskManager::write_log(buffer_, offset_)\<close> appends the
      buffer's bytes to the log file; a failed write raises.\<close>
  "write_log lm =
     (if write_log_fails lm then Some (Inl UnixError, lm)
      else Some (Inr (), lm\<lparr>log_file := log_file lm @ log_buffer lm\<rparr>))"

definition flush_log_to_disk :: "LogManager \<Rightarrow> (unit, LogManager) outcome" where
  "flush_log_to_disk lm =
     (if latch lm then None
      else
        let lm1 = lm\<lparr>latch := True\<rparr> in
        if buffer_offset lm1 = 0 then Some (Inr (), lm1\<lparr>latch := False\<rparr>)
        else
          (case write_log lm1 of
             None \<Rightarrow> None
           | Some (Inl e, lm2) \<Rightarrow> Some (Inl e, lm2\<lparr>latch := False\<rparr>)
           | Some (Inr u, lm2) \<Rightarrow>
               Some (Inr (), lm2\<lparr>persist_lsn := global_lsn lm2, log_buffer := [],
                                  buffer_offset := 0, latch := False\<rparr>)))"

definition add_log_to_buffer :: "LogRecord \<Rightarrow> LogManager \<Rightarrow> (lsn_t, LogManager) outcome" where
  "add_log_to_buffer log_record lm =
     (if latch lm then None
      else
        let lm1 = lm\<lparr>latch := True, global_lsn := global_lsn lm + 1\<rparr>;
            r = log_record\<lparr>lsn := global_lsn lm1\<rparr>
        in
        (case (if is_full lm1 (log_tot_len r)
               then bind_o (flush_log_to_disk lm1)
                      (\<lambda>u lm2. Some (Inr (), lm2\<lparr>log_buffer := [], buffer_offset := 0\<rparr>))
               else Some (Inr (), lm1)) of
           None \<Rightarrow> None
         | Some (Inl e, lm3) \<Rightarrow> Some (Inl e, lm3\<lparr>latch := False\<rparr>)
         | Some (Inr u, lm3) \<Rightarrow>
             Some (Inr (lsn r),
                   lm3\<lparr>log_buffer := log_buffer lm3 @ [r],
                       buffer_offset := buffer_offset lm3 + log_tot_len r,
                       latch := False\<rparr>)))"

text \<open>
  Every LSN handed out so far, \<open>1 .. global_lsn\<close>, belongs to a record that is in the log
  file or still in the buffer.
\<close>

definition all_logged :: "LogManager \<Rightarrow> bool" where
  "all_logged lm =
     list_all (\<lambda>l. l \<in> lsn ` set (log_file lm @ log_buffer lm)) [1 .. global_lsn lm]"

definition on_disk_upto :: "LogManager \<Rightarrow> lsn_t \<Rightarrow> bool" where
  "on_disk_upto lm n = list_all (\<lambda>l. l \<in> lsn ` set (log_file lm)) [1 .. n]"

section \<open>Transactions (transaction/transaction\_manager.cpp)\<close>

datatype TransactionState = DEFAULT | GROWING | SHRINKING | COMMITTED | ABORTED

datatype WType = INSERT_TUPLE | DELETE_TUPLE | UPDATE_TUPLE

record Rid =
  page_no :: int
  slot_no :: int

type_synonym byte = nat

record WriteRecord =
  wtype :: WType
  w_tab_name :: string
  w_rid :: Rid
  w_record :: "byte list"

text \<open>A lock identifier: the file descriptor and the rid of the locked record.\<close>

type_synonym LockDataId = "int \<times> int \<times> int"

record Transaction =
  txn_id :: txn_id_t
  state :: TransactionState
  start_ts :: int
  prev_lsn :: lsn_t
  write_set :: "WriteRecord list"
  lock_set :: "LockDataId list"
  index_latch_page_set :: "int list"
  index_deleted_page_set :: "int list"

definition new_Transaction :: "txn_id_t \<Rightarrow> Transaction" where
  \<comment> \<open>Modelled from the spec: the constructor is in transaction.h, not among the
      sources. A fresh transaction has empty sets and no log record yet.\<close>
  "new_Transaction tid =
     \<lparr>txn_id = tid, state = DEFAULT, start_ts = 0, prev_lsn = INVALID_LSN,
      write_set = [], lock_set = [], index_latch_page_set = [],
      index_deleted_page_set = []\<rparr>"

definition unlock :: "Transaction \<Rightarrow> LockDataId \<Rightarrow> Transaction" where
  \<comment> \<open>Modelled from the spec: \<^verbatim>\<open>LockManager::unlock\<close> is not among the sources. The
      spec's transition table has "GROWING, release lock: SHRINKING"; the lock table
      itself belongs to the lock manager and is not modelled.\<close>
  "unlock txn lock_data_id = (if state txn = GROWING then txn\<lparr>state := SHRINKING\<rparr> else txn)"

text \<open>
  Transaction objects live on the heap and \<^verbatim>\<open>txn_map\<close> holds pointers to them.
  \<open>heap\<close> maps an address to the object there, \<open>next_addr\<close> is where \<^verbatim>\<open>new\<close> allocates.
  \<open>tm_latch\<close> is the manager's mutex, as for the log manager.
\<close>

type_synonym txn_ptr = nat

record TransactionManager =
  next_txn_id :: txn_id_t
  next_timestamp :: int
  txn_map :: "txn_id_t \<rightharpoonup> txn_ptr"
  tm_latch :: bool
  heap :: "txn_ptr \<rightharpoonup> Transaction"
  next_addr :: txn_ptr

text \<open>
  \<^verbatim>\<open>begin(txn, log_manager)\<close>. Both arguments are pointers that may be null: \<open>txn\<close> is
  \<open>None\<close> or an address, and \<open>log_manager\<close> says whether the log manager was passed.
  The state is the transaction manager (with the heap) and the log manager.
\<close>

definition begin_txn ::
  "txn_ptr option \<Rightarrow> bool \<Rightarrow> TransactionManager \<times> LogManager
     \<Rightarrow> (txn_ptr, TransactionManager \<times> LogManager) outcome" where
  "begin_txn txn log_manager s =
     (let (tm, lm) = s in
      bind_o
        (case txn of
           None \<Rightarrow>
             let tid = next_txn_id tm;
                 p = next_addr tm;
                 t = (new_Transaction tid)\<lparr>state := GROWING, start_ts := next_timestamp tm\<rparr>;
                 tm1 = tm\<lparr>next_txn_id := next_txn_id tm + 1,
                          next_timestamp := next_timestamp tm + 1,
                          next_addr := Suc p,
                          heap := (heap tm)(p \<mapsto> t)\<rparr>
             in
             if log_manager then
               (case add_log_to_buffer ((BeginLogRecord tid)\<lparr>log_prev_lsn := INVALID_LSN\<rparr>) lm of
                  None \<Rightarrow> None
                | Some (Inl e, lm1) \<Rightarrow> Some (Inl e, (tm1, lm1))
                | Some (Inr l, lm1) \<Rightarrow>
                    Some (Inr p, (tm1\<lparr>heap := (heap tm1)(p \<mapsto> t\<lparr>prev_lsn := l\<rparr>)\<rparr>, lm1)))
             else Some (Inr p, (tm1, lm))
         | Some p \<Rightarrow> Some (Inr p, (tm, lm)))
        (\<lambda>p (tm2, lm2).
           if tm_latch tm2 then None
           else
             (case heap tm2 p of
                None \<Rightarrow> Some (Inl NullPointerDereference, (tm2, lm2))
              | Some t \<Rightarrow>
                  Some (Inr p, (tm2\<lparr>txn_map := (txn_map tm2)(txn_id t \<mapsto> p)\<rparr>, lm2)))))"

text \<open>
  \<^verbatim>\<open>commit(txn, log_manager)\<close>. The object \<open>txn\<close> points to is passed in and returned as
  the call leaves it. The loop over the write set has an empty body.
\<close>

definition commit ::
  "Transaction \<Rightarrow> bool \<Rightarrow> LogManager \<Rightarrow> (unit, Transaction \<times> LogManager) outcome" where
  "commit txn log_manager lm =
     (if state txn = COMMITTED then Some (Inl AssertionFailed, (txn, lm))
      else
        let txn1 = fold (\<lambda>lock_data_id t. unlock t lock_data_id) (lock_set txn) txn;
            txn2 = txn1\<lparr>write_set := [], lock_set := [], index_latch_page_set := [],
                        index_deleted_page_set := []\<rparr>
        in
        bind_o
          (if log_manager then
             (let commit_log = (CommitLogRecord (txn_id txn2))\<lparr>log_prev_lsn := prev_lsn txn2\<rparr> in
              case add_log_to_buffer commit_log lm of
                None \<Rightarrow> None
              | Some (Inl e, lm1) \<Rightarrow> Some (Inl e, (txn2, lm1))
              | Some (Inr l, lm1) \<Rightarrow>
                  (let txn3 = txn2\<lparr>prev_lsn := l\<rparr> in
                   case flush_log_to_disk lm1 of
                     None \<Rightarrow> None
                   | Some (Inl e, lm2) \<Rightarrow> Some (Inl e, (txn3, lm2))
                   | Some (Inr u, lm2) \<Rightarrow> Some (Inr (), (txn3, lm2))))
           else Some (Inr (), (txn2, lm)))
          (\<lambda>u (txn4, lm4). Some (Inr (), (txn4\<lparr>state := COMMITTED\<rparr>, lm4))))"


section \<open>Record manager (record/rm\_file\_handle.cpp)\<close>

definition RM_NO_PAGE :: int where
  "RM_NO_PAGE = -1"

record RmFileHdr =
  record_size :: int
  num_pages :: int
  num_records_per_page :: int
  first_free_page_no :: int
  bitmap_size :: int

text \<open>
  A data page: the page header, the bitmap and the slots. The bitmap and the slot array
  are indexed by slot number; an index outside \<open>0 ..< num_records_per_page\<close> is a
  location outside the slot array in the C++ (undefined behaviour there), and the theorems
  below use in-range slots only.
\<close>

record RmPage =
  next_free_page_no :: int
  num_records :: int
  bitmap :: "int \<Rightarrow> bool"
  slots :: "int \<Rightarrow> byte list"

text \<open>
  The calls a file handle makes to the buffer pool manager, in order. The buffer pool is
  not among the sources: \<^verbatim>\<open>fetch_page\<close> and \<^verbatim>\<open>new_page\<close> pin the page and always
  deliver it (the pool is taken to have a free frame), \<^verbatim>\<open>unpin_page\<close> takes one pin
  off and records the dirty flag.
\<close>

datatype bpm_call = fetch_page int | new_page int | unpin_page int bool

text \<open>
  The file handle with the pages of its file as the buffer pool presents them. A
  \<^verbatim>\<open>RmPageHandle\<close> points into the pinned page, so the model's page handle is the page
  number and every access goes to \<open>pages fh page_no\<close>.
\<close>

record RmFileHandle =
  fd :: int
  file_hdr :: RmFileHdr
  pages :: "int \<Rightarrow> RmPage"
  bpm_calls :: "bpm_call list"

text \<open>
  The lock manager is an external collaborator. Each request either grants the lock or
  raises; which of the two is the lock manager's decision, given here by the two members
  (\<open>True\<close>: granted).
\<close>

record LockManager =
  lock_shared_on_record :: "txn_id_t \<Rightarrow> Rid \<Rightarrow> int \<Rightarrow> bool"
  lock_exclusive_on_record :: "txn_id_t \<Rightarrow> Rid \<Rightarrow> int \<Rightarrow> bool"

text \<open>
  \<^verbatim>\<open>Context\<close>: the transaction pointer (\<open>None\<close> when null), the lock manager and whether
  a log manager is attached. A \<^verbatim>\<open>Context*\<close> argument is a \<open>Context option\<close>.
\<close>

record Context =
  ctx_txn :: "txn_id_t option"
  lock_mgr :: LockManager
  ctx_log_mgr :: bool

subsection \<open>Bitmap\<close>

definition is_set :: "(int \<Rightarrow> bool) \<Rightarrow> int \<Rightarrow> bool" where
  \<comment> \<open>Modelled from the spec: \<^verbatim>\<open>Bitmap\<close> is declared in bitmap.h, not among the sources.
      "Bitmap bit i is set iff slot i holds a live record."\<close>
  "is_set bm pos = bm pos"

definition set_bit :: "(int \<Rightarrow> bool) \<Rightarrow> int \<Rightarrow> (int \<Rightarrow> bool)" where
  \<comment> \<open>Modelled from the spec: \<^verbatim>\<open>Bitmap::set\<close>.\<close>
  "set_bit bm pos = bm(pos := True)"

definition reset_bit :: "(int \<Rightarrow> bool) \<Rightarrow> int \<Rightarrow> (int \<Rightarrow> bool)" where
  \<comment> \<open>Modelled from the spec: \<^verbatim>\<open>Bitmap::reset\<close>.\<close>
  "reset_bit bm pos = bm(pos := False)"

definition init_bitmap :: "int \<Rightarrow> bool" where
  \<comment> \<open>Modelled from the spec: \<^verbatim>\<open>Bitmap::init\<close> "zero the bitmap".\<close>
  "init_bitmap = (\<lambda>pos. False)"

function next_bit_from :: "bool \<Rightarrow> (int \<Rightarrow> bool) \<Rightarrow> int \<Rightarrow> int \<Rightarrow> int" where
  "next_bit_from b bm max_n i =
     (if i < max_n then (if bm i = b then i else next_bit_from b bm max_n (i + 1)) else max_n)"
  by pat_completeness auto
termination
  by (relation "measure (\<lambda>(b, bm, max_n, i). nat (max_n - i))") auto

definition first_bit :: "bool \<Rightarrow> (int \<Rightarrow> bool) \<Rightarrow> int \<Rightarrow> int" where
  \<comment> \<open>Modelled from the spec: \<^verbatim>\<open>Bitmap::first_bit(bit, bitmap, max_n)\<close>, "the
      lowest-indexed clear bit" for \<open>bit = False\<close>; \<open>max_n\<close> when there is none.\<close>
  "first_bit b bm max_n = next_bit_from b bm max_n 0"

subsection \<open>Page handles\<close>

definition bpm :: "bpm_call \<Rightarrow> RmFileHandle \<Rightarrow> RmFileHandle" where
  "bpm c fh = fh\<lparr>bpm_calls := bpm_calls fh @ [c]\<rparr>"

definition fetch_page_handle :: "int \<Rightarrow> RmFileHandle \<Rightarrow> (int, RmFileHandle) outcome" where
  "fetch_page_handle pn fh =
     (if pn \<ge> num_pages (file_hdr fh) \<or> pn < 0
      then Some (Inl (PageNotExistError pn), fh)
      else Some (Inr pn, bpm (fetch_page pn) fh))"

text \<open>
  The buffer pool gives a new page the next page number of the file, which is
  \<open>num_pages\<close>, the number the handle passes in; the page comes zero-filled.
\<close>

definition create_new_page_handle :: "RmFileHandle \<Rightarrow> (int, RmFileHandle) outcome" where
  "create_new_page_handle fh =
     (let new_page_no = num_pages (file_hdr fh);
          fh1 = bpm (new_page new_page_no) fh;
          fh2 = fh1\<lparr>pages := (pages fh1)
                  (new_page_no :=
                     \<lparr>next_free_page_no = RM_NO_PAGE, num_records = 0,
                      bitmap = init_bitmap,
                      slots = (\<lambda>i. replicate (nat (record_size (file_hdr fh1))) 0)\<rparr>)\<rparr>;
          hdr3 = (file_hdr fh2)\<lparr>num_pages := num_pages (file_hdr fh2) + 1\<rparr>;
          hdr4 = (if first_free_page_no hdr3 = RM_NO_PAGE
                  then hdr3\<lparr>first_free_page_no := new_page_no\<rparr> else hdr3)
      in Some (Inr new_page_no, fh2\<lparr>file_hdr := hdr4\<rparr>))"

text \<open>
  The recursion follows \<open>first_free_page_no\<close> past full pages; nothing bounds it when
  the chain does not end, so a call may not return.
\<close>

partial_function (option) create_page_handle ::
  "RmFileHandle \<Rightarrow> ((error + int) \<times> RmFileHandle) option" where
  "create_page_handle fh =
     (if first_free_page_no (file_hdr fh) = RM_NO_PAGE then create_new_page_handle fh
      else
        (case fetch_page_handle (first_free_page_no (file_hdr fh)) fh of
           None \<Rightarrow> None
         | Some (Inl e, fh1) \<Rightarrow> Some (Inl e, fh1)
         | Some (Inr p, fh1) \<Rightarrow>
             if num_records (pages fh1 p) = num_records_per_page (file_hdr fh1)
             then create_page_handle
                    (bpm (unpin_page p False)
                       (fh1\<lparr>file_hdr := (file_hdr fh1)
                              \<lparr>first_free_page_no := next_free_page_no (pages fh1 p)\<rparr>\<rparr>))
             else Some (Inr p, fh1)))"

definition release_page_handle :: "int \<Rightarrow> RmFileHandle \<Rightarrow> RmFileHandle" where
  "release_page_handle p fh =
     (if num_records (pages fh p) = num_records_per_page (file_hdr fh) - 1
      then
        (let pg = (pages fh p)\<lparr>next_free_page_no := first_free_page_no (file_hdr fh)\<rparr>;
             fh1 = fh\<lparr>pages := (pages fh)(p := pg),
                      file_hdr := (file_hdr fh)\<lparr>first_free_page_no := p\<rparr>\<rparr>
         in bpm (unpin_page p True) fh1)
      else fh)"

subsection \<open>Record operations\<close>

definition lock_shared :: "Context option \<Rightarrow> Rid \<Rightarrow> RmFileHandle \<Rightarrow> (unit, RmFileHandle) outcome" where
  "lock_shared context r fh =
     (case context of
        None \<Rightarrow> Some (Inr (), fh)
      | Some c \<Rightarrow>
          (case ctx_txn c of
             None \<Rightarrow> Some (Inr (), fh)
           | Some t \<Rightarrow>
               if lock_shared_on_record (lock_mgr c) t r (fd fh) then Some (Inr (), fh)
               else Some (Inl TransactionAbortException, fh)))"

definition lock_exclusive :: "Context option \<Rightarrow> Rid \<Rightarrow> RmFileHandle \<Rightarrow> (unit, RmFileHandle) outcome" where
  "lock_exclusive context r fh =
     (case context of
        None \<Rightarrow> Some (Inr (), fh)
      | Some c \<Rightarrow>
          (case ctx_txn c of
             None \<Rightarrow> Some (Inr (), fh)
           | Some t \<Rightarrow>
               if lock_exclusive_on_record (lock_mgr c) t r (fd fh) then Some (Inr (), fh)
               else Some (Inl TransactionAbortException, fh)))"

definition unpin_if_context :: "Context option \<Rightarrow> int \<Rightarrow> bool \<Rightarrow> RmFileHandle \<Rightarrow> RmFileHandle" where
  "unpin_if_context context p is_dirty fh =
     (if context \<noteq> None then bpm (unpin_page p is_dirty) fh else fh)"

definition get_record :: "Rid \<Rightarrow> Context option \<Rightarrow> RmFileHandle \<Rightarrow> (byte list, RmFileHandle) outcome" where
  "get_record r context fh =
     bind_o (fetch_page_handle (page_no r) fh) (\<lambda>p fh1.
       if \<not> is_set (bitmap (pages fh1 p)) (slot_no r)
       then Some (Inl (RecordNotFoundError (page_no r) (slot_no r)), fh1)
       else
         bind_o (lock_shared context r fh1) (\<lambda>u fh2.
           let rec = take (nat (record_size (file_hdr fh2))) (slots (pages fh2 p) (slot_no r))
           in Some (Inr rec, unpin_if_context context (page_no r) False fh2)))"

definition write_slot :: "int \<Rightarrow> int \<Rightarrow> byte list \<Rightarrow> RmFileHandle \<Rightarrow> RmFileHandle" where
  \<comment> \<open>\<^verbatim>\<open>memcpy(slot, buf, file_hdr_.record_size)\<close>\<close>
  "write_slot p s buf fh =
     fh\<lparr>pages := (pages fh)
          (p := (pages fh p)
             \<lparr>slots := (slots (pages fh p))(s := take (nat (record_size (file_hdr fh))) buf)\<rparr>)\<rparr>"

definition insert_record :: "byte list \<Rightarrow> Context option \<Rightarrow> RmFileHandle \<Rightarrow> (Rid, RmFileHandle) outcome" where
  "insert_record buf context fh =
     bind_o (create_page_handle fh) (\<lambda>p fh1.
       let s = first_bit False (bitmap (pages fh1 p)) (num_records_per_page (file_hdr fh1)) in
       bind_o (lock_exclusive context \<lparr>page_no = p, slot_no = s\<rparr> fh1) (\<lambda>u fh2.
         let fh3 = write_slot p s buf fh2;
             pg = pages fh3 p;
             pg' = pg\<lparr>bitmap := set_bit (bitmap pg) s, num_records := num_records pg + 1\<rparr>;
             fh4 = fh3\<lparr>pages := (pages fh3)(p := pg')\<rparr>;
             fh5 = (if num_records pg' = num_records_per_page (file_hdr fh4)
                    then fh4\<lparr>file_hdr := (file_hdr fh4)
                               \<lparr>first_free_page_no := next_free_page_no pg'\<rparr>\<rparr>
                    else fh4)
         in Some (Inr \<lparr>page_no = p, slot_no = s\<rparr>, unpin_if_context context p True fh5)))"

text \<open>The overload \<^verbatim>\<open>insert_record(const Rid& rid, char* buf)\<close>.\<close>

definition insert_record_at :: "Rid \<Rightarrow> byte list \<Rightarrow> RmFileHandle \<Rightarrow> (unit, RmFileHandle) outcome" where
  "insert_record_at r buf fh =
     bind_o (fetch_page_handle (page_no r) fh) (\<lambda>p fh1.
       if is_set (bitmap (pages fh1 p)) (slot_no r)
       then Some (Inl (InternalError ''Slot is already occupied''), fh1)
       else
         let fh2 = write_slot p (slot_no r) buf fh1;
             pg = pages fh2 p;
             pg' = pg\<lparr>bitmap := set_bit (bitmap pg) (slot_no r),
                      num_records := num_records pg + 1\<rparr>;
             fh3 = fh2\<lparr>pages := (pages fh2)(p := pg')\<rparr>
         in Some (Inr (), bpm (unpin_page p True) fh3))"

definition delete_record :: "Rid \<Rightarrow> Context option \<Rightarrow> RmFileHandle \<Rightarrow> (unit, RmFileHandle) outcome" where
  "delete_record r context fh =
     bind_o (fetch_page_handle (page_no r) fh) (\<lambda>p fh1.
       if \<not> is_set (bitmap (pages fh1 p)) (slot_no r)
       then Some (Inl (RecordNotFoundError (page_no r) (slot_no r)), fh1)
       else
         bind_o (lock_exclusive context r fh1) (\<lambda>u fh2.
           let pg = pages fh2 p;
               pg' = pg\<lparr>bitmap := reset_bit (bitmap pg) (slot_no r),
                        num_records := num_records pg - 1\<rparr>;
               fh3 = fh2\<lparr>pages := (pages fh2)(p := pg')\<rparr>;
               fh4 = release_page_handle p fh3
           in Some (Inr (), unpin_if_context context p True fh4)))"

definition update_record :: "Rid \<Rightarrow> byte list \<Rightarrow> Context option \<Rightarrow> RmFileHandle \<Rightarrow> (unit, RmFileHandle) outcome" where
  "update_record r buf context fh =
     bind_o (fetch_page_handle (page_no r) fh) (\<lambda>p fh1.
       if \<not> is_set (bitmap (pages fh1 p)) (slot_no r)
       then Some (Inl (RecordNotFoundError (page_no r) (slot_no r)), fh1)
       else
         bind_o (lock_exclusive context r fh1) (\<lambda>u fh2.
           Some (Inr (), unpin_if_context context p True (write_slot p (slot_no r) buf fh2))))"

section \<open>Table scan (record/rm\_scan.cpp)\<close>

text \<open>The inner loop of \<^verbatim>\<open>RmScan::next\<close>: the first set bit at or after \<open>next_slot\<close>.\<close>

function scan_slots :: "(int \<Rightarrow> bool) \<Rightarrow> int \<Rightarrow> int \<Rightarrow> int option" where
  "scan_slots bm n next_slot =
     (if next_slot < n
      then (if is_set bm next_slot then Some next_slot else scan_slots bm n (next_slot + 1))
      else None)"
  by pat_completeness auto
termination
  by (relation "measure (\<lambda>(bm, n, next_slot). nat (n - next_slot))") auto

text \<open>
  \<^verbatim>\<open>RmScan::next\<close>. The scan's state is its \<^verbatim>\<open>rid_\<close>; the file handle is passed along
  because every page visited is fetched through it.
\<close>

lemma fetch_page_handle_Inr:
  "fetch_page_handle pn fh = Some (Inr p, fh1) \<Longrightarrow>
     p = pn \<and> fh1 = bpm (fetch_page pn) fh \<and> 0 \<le> pn \<and> pn < num_pages (file_hdr fh)"
  by (cases "pn \<ge> num_pages (file_hdr fh) \<or> pn < 0") (auto simp: fetch_page_handle_def)

function rm_scan_next :: "Rid \<Rightarrow> RmFileHandle \<Rightarrow> (unit, Rid \<times> RmFileHandle) outcome" where
  "rm_scan_next r fh =
     (if page_no r < num_pages (file_hdr fh) then
        (case fetch_page_handle (page_no r) fh of
           None \<Rightarrow> None
         | Some (Inl e, fh1) \<Rightarrow> Some (Inl e, (r, fh1))
         | Some (Inr p, fh1) \<Rightarrow>
             (case scan_slots (bitmap (pages fh1 p))
                     (num_records_per_page (file_hdr fh1)) (slot_no r + 1) of
                Some s \<Rightarrow> Some (Inr (), (r\<lparr>slot_no := s\<rparr>, fh1))
              | None \<Rightarrow> rm_scan_next (r\<lparr>page_no := page_no r + 1, slot_no := -1\<rparr>) fh1))
      else Some (Inr (), (\<lparr>page_no = num_pages (file_hdr fh), slot_no = 0\<rparr>, fh)))"
  by pat_completeness auto
termination
proof (relation "measure (\<lambda>(r, fh). nat (num_pages (file_hdr fh) - page_no r))")
  show "wf (measure (\<lambda>(r, fh). nat (num_pages (file_hdr fh) - page_no r)))" by simp
next
  fix r :: Rid and fh x2 x fh1 p
  assume a: "page_no r < num_pages (file_hdr fh)"
    and f: "fetch_page_handle (page_no r) fh = Some x2" "(x, fh1) = x2" "x = Inr p"
  from f have "fetch_page_handle (page_no r) fh = Some (Inr p, fh1)" by simp
  from fetch_page_handle_Inr [OF this] have "file_hdr fh1 = file_hdr fh"
    by (simp add: bpm_def)
  with a show "((r\<lparr>page_no := page_no r + 1, slot_no := - 1\<rparr>, fh1), r, fh)
        \<in> measure (\<lambda>(r, fh). nat (num_pages (file_hdr fh) - page_no r))"
    by simp
qed

definition RmScan :: "RmFileHandle \<Rightarrow> (unit, Rid \<times> RmFileHandle) outcome" where
  \<comment> \<open>the constructor\<close>
  "RmScan fh = rm_scan_next \<lparr>page_no = 1, slot_no = -1\<rparr> fh"

definition rm_scan_is_end :: "Rid \<Rightarrow> RmFileHandle \<Rightarrow> bool" where
  "rm_scan_is_end r fh \<longleftrightarrow> page_no r \<ge> num_pages (file_hdr fh)"

section \<open>Rollback (TransactionManager::abort)\<close>

text \<open>
  \<^verbatim>\<open>sm_manager_->fhs_\<close>: the open file handles by table name. \<^verbatim>\<open>fhs_[name]\<close> on a
  name that is not there yields a null handle, and the call through it is a null
  dereference.
\<close>

type_synonym fhs_t = "string \<Rightarrow> RmFileHandle option"

text \<open>The \<^verbatim>\<open>switch\<close> of the rollback loop: the inverse of one write record, with a null context.\<close>

definition undo_write :: "WriteRecord \<Rightarrow> RmFileHandle \<Rightarrow> (unit, RmFileHandle) outcome" where
  "undo_write write_record fh =
     (case wtype write_record of
        INSERT_TUPLE \<Rightarrow> delete_record (w_rid write_record) None fh
      | DELETE_TUPLE \<Rightarrow>
          bind_o (insert_record (w_record write_record) None fh) (\<lambda>r fh1. Some (Inr (), fh1))
      | UPDATE_TUPLE \<Rightarrow> update_record (w_rid write_record) (w_record write_record) None fh)"

text \<open>The rollback loop over the write records in the order given (abort passes the reversed write set).\<close>

fun rollback :: "WriteRecord list \<Rightarrow> fhs_t \<Rightarrow> (unit, fhs_t) outcome" where
  "rollback [] fhs = Some (Inr (), fhs)"
| "rollback (write_record # rest) fhs =
     (case fhs (w_tab_name write_record) of
        None \<Rightarrow> Some (Inl NullPointerDereference, fhs)
      | Some fh \<Rightarrow>
          (case undo_write write_record fh of
             None \<Rightarrow> None
           | Some (Inl e, fh1) \<Rightarrow> Some (Inl e, fhs(w_tab_name write_record \<mapsto> fh1))
           | Some (Inr u, fh1) \<Rightarrow> rollback rest (fhs(w_tab_name write_record \<mapsto> fh1))))"

definition abort ::
  "Transaction \<Rightarrow> bool \<Rightarrow> fhs_t \<times> LogManager
     \<Rightarrow> (unit, Transaction \<times> fhs_t \<times> LogManager) outcome" where
  "abort txn log_manager s =
     (let (fhs, lm) = s in
      case rollback (rev (write_set txn)) fhs of
        None \<Rightarrow> None
      | Some (Inl e, fhs1) \<Rightarrow> Some (Inl e, (txn, fhs1, lm))
      | Some (Inr u, fhs1) \<Rightarrow>
          let txn1 = fold (\<lambda>lock_data_id t. unlock t lock_data_id) (lock_set txn) txn;
              txn2 = txn1\<lparr>write_set := [], lock_set := [], index_latch_page_set := [],
                          index_deleted_page_set := []\<rparr>
          in
          bind_o
            (if log_manager then
               (let abort_log = (AbortLogRecord (txn_id txn2))\<lparr>log_prev_lsn := prev_lsn txn2\<rparr> in
                case add_log_to_buffer abort_log lm of
                  None \<Rightarrow> None
                | Some (Inl e, lm1) \<Rightarrow> Some (Inl e, (txn2, fhs1, lm1))
                | Some (Inr l, lm1) \<Rightarrow>
                    (let txn3 = txn2\<lparr>prev_lsn := l\<rparr> in
                     case flush_log_to_disk lm1 of
                       None \<Rightarrow> None
                     | Some (Inl e, lm2) \<Rightarrow> Some (Inl e, (txn3, fhs1, lm2))
                     | Some (Inr u, lm2) \<Rightarrow> Some (Inr (), (txn3, fhs1, lm2))))
             else Some (Inr (), (txn2, fhs1, lm)))
            (\<lambda>u (txn4, fhs4, lm4). Some (Inr (), (txn4\<lparr>state := ABORTED\<rparr>, fhs4, lm4))))"

text \<open>
  The live records of a file in scan order, each with its rid: the slots whose bit is
  set, over the data pages \<open>1 ..< num_pages\<close>.
\<close>

definition live_records :: "RmFileHandle \<Rightarrow> (Rid \<times> byte list) list" where
  "live_records fh =
     concat (map (\<lambda>p.
        map (\<lambda>s. (\<lparr>page_no = p, slot_no = s\<rparr>, slots (pages fh p) s))
          (filter (\<lambda>s. is_set (bitmap (pages fh p)) s)
             [0 .. num_records_per_page (file_hdr fh) - 1]))
       [1 .. num_pages (file_hdr fh) - 1])"

text \<open>
  The free-page chain \<open>first_free_page_no, next_free_page_no, ...\<close> followed for at most
  \<open>n\<close> links: \<open>Some\<close> of the pages on it when it reaches \<open>RM_NO_PAGE\<close>, \<open>None\<close> when it has
  not ended by then.
\<close>

fun chain_from :: "nat \<Rightarrow> RmFileHandle \<Rightarrow> int \<Rightarrow> int list option" where
  "chain_from 0 fh p = (if p = RM_NO_PAGE then Some [] else None)"
| "chain_from (Suc n) fh p =
     (if p = RM_NO_PAGE then Some []
      else map_option ((#) p) (chain_from n fh (next_free_page_no (pages fh p))))"

definition free_chain :: "nat \<Rightarrow> RmFileHandle \<Rightarrow> int list option" where
  "free_chain n fh = chain_from n fh (first_free_page_no (file_hdr fh))"

definition non_full_pages :: "RmFileHandle \<Rightarrow> int list" where
  "non_full_pages fh =
     filter (\<lambda>p. num_records (pages fh p) < num_records_per_page (file_hdr fh))
       [1 .. num_pages (file_hdr fh) - 1]"

text \<open>
  An empty table file as \<^verbatim>\<open>RmManager::create_file\<close> leaves it (that function is not
  among the sources; the spec has "page 0 is the file header page" and
  "\<open>first_free_page_no = NO_PAGE\<close> means no page has a free slot"): the header page
  alone and no free page.
\<close>

definition empty_file :: "int \<Rightarrow> int \<Rightarrow> int \<Rightarrow> RmFileHandle" where
  "empty_file f rs n =
     \<lparr>fd = f,
      file_hdr = \<lparr>record_size = rs, num_pages = 1, num_records_per_page = n,
                  first_free_page_no = RM_NO_PAGE, bitmap_size = (n + 7) div 8\<rparr>,
      pages = (\<lambda>p. \<lparr>next_free_page_no = RM_NO_PAGE, num_records = 0,
                     bitmap = init_bitmap, slots = (\<lambda>s. [])\<rparr>),
      bpm_calls = []\<rparr>"

section \<open>Catalogue and values (declared in headers that are not among the sources)\<close>

datatype ColType = TYPE_INT | TYPE_FLOAT | TYPE_STRING

datatype CompOp = OP_EQ | OP_NE | OP_LT | OP_GT | OP_LE | OP_GE

record TabCol =
  tab_name :: string
  col_name :: string

record ColMeta =
  cm_tab_name :: string
  cm_name :: string
  cm_type :: ColType
  cm_len :: int
  cm_offset :: int

record IndexMeta =
  ix_tab_name :: string
  col_tot_len :: int
  ix_cols :: "ColMeta list"

record TabMeta =
  tm_name :: string
  cols :: "ColMeta list"
  indexes :: "IndexMeta list"

text \<open>
  IEEE single precision is not modelled. The type \<open>'f\<close> stands for \<^verbatim>\<open>float\<close>, and what C++
  does with it is passed in: the two casts, the 4-byte image and its inverse, and the
  comparisons.
\<close>

record 'f FloatOps =
  cast_float :: "int \<Rightarrow> 'f"
  cast_int :: "'f \<Rightarrow> int"
  float_bytes :: "'f \<Rightarrow> byte list"
  bytes_float :: "byte list \<Rightarrow> 'f"
  float_less :: "'f \<Rightarrow> 'f \<Rightarrow> bool"
  float_eq :: "'f \<Rightarrow> 'f \<Rightarrow> bool"

text \<open>\<^verbatim>\<open>Value\<close>: the tagged union and the raw buffer (\<open>None\<close>: the null pointer).\<close>

datatype 'f Val = INT_VAL int | FLOAT_VAL 'f | STR_VAL string

record 'f Value =
  val :: "'f Val"
  raw :: "byte list option"

definition value_type :: "'f Value \<Rightarrow> ColType" where
  "value_type v = (case val v of INT_VAL i \<Rightarrow> TYPE_INT | FLOAT_VAL f \<Rightarrow> TYPE_FLOAT
                   | STR_VAL s \<Rightarrow> TYPE_STRING)"

definition coltype2str :: "ColType \<Rightarrow> string" where
  \<comment> \<open>Modelled from the spec: the names of the three column types.\<close>
  "coltype2str t = (case t of TYPE_INT \<Rightarrow> ''INT'' | TYPE_FLOAT \<Rightarrow> ''FLOAT''
                    | TYPE_STRING \<Rightarrow> ''STRING'')"

text \<open>A 4-byte little-endian two's complement \<^verbatim>\<open>int\<close>.\<close>

definition encode_int :: "int \<Rightarrow> byte list" where
  "encode_int i =
     (let u = i mod 4294967296
      in [nat (u mod 256), nat (u div 256 mod 256), nat (u div 65536 mod 256),
          nat (u div 16777216 mod 256)])"

definition decode_int :: "byte list \<Rightarrow> int" where
  "decode_int bs =
     (let b = (\<lambda>k. if k < length bs then int (bs ! k) else 0);
          u = b 0 + 256 * b 1 + 65536 * b 2 + 16777216 * b 3
      in if u \<ge> 2147483648 then u - 4294967296 else u)"

definition pad_to :: "int \<Rightarrow> byte list \<Rightarrow> byte list" where
  "pad_to len bs = take (nat len) (bs @ replicate (nat len - length bs) 0)"

definition init_raw :: "'f FloatOps \<Rightarrow> int \<Rightarrow> 'f Value \<Rightarrow> error + 'f Value" where
  \<comment> \<open>Modelled from the spec: \<^verbatim>\<open>Value::init_raw\<close> is not among the sources.
      "\<open>init_raw(len)\<close> populates the raw buffer in the target column's on-disk encoding,
      zero-padding strings on the right and truncating or rejecting overlong strings":
      the buffer has \<open>len\<close> bytes, and an overlong string is rejected.\<close>
  "init_raw F len v =
     (case val v of
        INT_VAL i \<Rightarrow> Inr (v\<lparr>raw := Some (pad_to len (encode_int i))\<rparr>)
      | FLOAT_VAL f \<Rightarrow> Inr (v\<lparr>raw := Some (pad_to len (float_bytes F f))\<rparr>)
      | STR_VAL s \<Rightarrow>
          if len < int (length s) then Inl StringOverflowError
          else Inr (v\<lparr>raw := Some (pad_to len (map of_char s))\<rparr>))"

datatype 'f Rhs = RhsVal "'f Value" | RhsCol TabCol

text \<open>
  \<^verbatim>\<open>Condition\<close>. The members \<^verbatim>\<open>is_rhs_val\<close>, \<^verbatim>\<open>rhs_val\<close> and \<^verbatim>\<open>rhs_col\<close> are the one
  field \<open>rhs\<close>: a value or a column.
\<close>

record 'f Condition =
  lhs_col :: TabCol
  op :: CompOp
  rhs :: "'f Rhs"

record 'f SetClause =
  set_lhs :: TabCol
  set_rhs :: "'f Value"

definition compare :: "('a \<Rightarrow> 'a \<Rightarrow> bool) \<Rightarrow> ('a \<Rightarrow> 'a \<Rightarrow> bool) \<Rightarrow> 'a \<Rightarrow> 'a \<Rightarrow> CompOp \<Rightarrow> bool" where
  \<comment> \<open>Modelled from the spec: the helper \<^verbatim>\<open>compare\<close> is not among the sources; "decode
      as native fixed-width numeric, apply operator". \<open>lt\<close> and \<open>eq\<close> are \<^verbatim>\<open><\<close> and
      \<^verbatim>\<open>==\<close> of the compared type.\<close>
  "compare lt eq a b o' =
     (case o' of
        OP_EQ \<Rightarrow> eq a b
      | OP_NE \<Rightarrow> \<not> eq a b
      | OP_LT \<Rightarrow> lt a b
      | OP_GT \<Rightarrow> lt b a
      | OP_LE \<Rightarrow> lt a b \<or> eq a b
      | OP_GE \<Rightarrow> lt b a \<or> eq a b)"

definition get_col :: "ColMeta list \<Rightarrow> TabCol \<Rightarrow> error + ColMeta" where
  \<comment> \<open>Modelled from the spec: \<^verbatim>\<open>AbstractExecutor::get_col\<close> is not among the sources; it
      finds the column with the target's table and column name and raises
      \<open>ColumnNotFound\<close> when there is none.\<close>
  "get_col cs target =
     (case find (\<lambda>c. cm_tab_name c = tab_name target \<and> cm_name c = col_name target) cs of
        None \<Rightarrow> Inl (ColumnNotFoundError (tab_name target @ ''.'' @ col_name target))
      | Some c \<Rightarrow> Inr c)"

section \<open>Sequential scan (execution/executor\_seq\_scan.h)\<close>

text \<open>
  The executor's members that change or are read: the conditions, the columns, \<^verbatim>\<open>rid_\<close>,
  the scan (\<open>None\<close> before \<open>beginTuple\<close>; a scan is its rid) and the context. The file
  handle \<^verbatim>\<open>fh_\<close> points to is passed along.
\<close>

record 'f SeqScanExecutor =
  ss_conds :: "'f Condition list"
  ss_cols :: "ColMeta list"
  ss_rid :: Rid
  ss_scan :: "Rid option"
  ss_context :: "Context option"

text \<open>The body of the loop over the conditions, for one condition.\<close>

definition eval_cond :: "'f FloatOps \<Rightarrow> ColMeta list \<Rightarrow> byte list \<Rightarrow> 'f Condition \<Rightarrow> error + bool" where
  "eval_cond F cs rec cond =
     (case get_col cs (lhs_col cond) of
        Inl e \<Rightarrow> Inl e
      | Inr lc \<Rightarrow>
          (case rhs cond of
             RhsCol c \<Rightarrow> Inl NullPointerDereference
           | RhsVal v \<Rightarrow>
               (case raw v of
                  None \<Rightarrow> Inl NullPointerDereference
                | Some rhs_val \<Rightarrow>
                    let lhs_val = drop (nat (cm_offset lc)) rec in
                    Inr (case cm_type lc of
                           TYPE_INT \<Rightarrow>
                             compare (<) (=) (decode_int lhs_val) (decode_int rhs_val) (op cond)
                         | TYPE_FLOAT \<Rightarrow>
                             compare (float_less F) (float_eq F)
                               (bytes_float F (take 4 lhs_val)) (bytes_float F (take 4 rhs_val))
                               (op cond)
                         | TYPE_STRING \<Rightarrow>
                             compare (lexordp (<)) (=)
                               (take (nat (cm_len lc)) lhs_val) rhs_val (op cond)))))"

text \<open>The loop over the conditions: it leaves at the first condition that fails.\<close>

fun eval_conds :: "'f FloatOps \<Rightarrow> ColMeta list \<Rightarrow> byte list \<Rightarrow> 'f Condition list \<Rightarrow> error + bool" where
  "eval_conds F cs rec [] = Inr True"
| "eval_conds F cs rec (cond # rest) =
     (case eval_cond F cs rec cond of
        Inl e \<Rightarrow> Inl e
      | Inr res \<Rightarrow> if \<not> res then Inr False else eval_conds F cs rec rest)"

lemma scan_slots_Some: "scan_slots bm n k = Some s \<Longrightarrow> k \<le> s \<and> s < n"
proof (induction bm n k rule: scan_slots.induct)
  case (1 bm n next_slot)
  show ?case
  proof (cases "next_slot < n")
    case False
    with "1.prems" show ?thesis by simp
  next
    case True
    show ?thesis
    proof (cases "is_set bm next_slot")
      case True
      with \<open>next_slot < n\<close> "1.prems" show ?thesis by simp
    next
      case False
      with \<open>next_slot < n\<close> "1.prems" have "scan_slots bm n (next_slot + 1) = Some s" by simp
      with "1.IH" \<open>next_slot < n\<close> False show ?thesis by fastforce
    qed
  qed
qed

text \<open>A step of the scan keeps the file header and moves the rid forward.\<close>

lemma rm_scan_next_progress:
  "rm_scan_next r fh = Some (Inr u, (r', fh')) \<Longrightarrow> page_no r < num_pages (file_hdr fh) \<Longrightarrow>
     file_hdr fh' = file_hdr fh \<and> page_no r' \<le> num_pages (file_hdr fh) \<and>
     (page_no r < page_no r' \<or>
      page_no r' = page_no r \<and> slot_no r < slot_no r' \<and>
        slot_no r' < num_records_per_page (file_hdr fh))"
proof (induction r fh rule: rm_scan_next.induct)
  case (1 r fh)
  from "1.prems"(2) have inr: "page_no r < num_pages (file_hdr fh)" .
  show ?case
  proof (cases "page_no r < 0")
    case True
    with inr "1.prems"(1) show ?thesis
      by (simp add: fetch_page_handle_def)
  next
    case False
    let ?fh1 = "bpm (fetch_page (page_no r)) fh"
    from False inr have f: "fetch_page_handle (page_no r) fh = Some (Inr (page_no r), ?fh1)"
      by (simp add: fetch_page_handle_def)
    have hdr: "file_hdr ?fh1 = file_hdr fh" by (simp add: bpm_def)
    show ?thesis
    proof (cases "scan_slots (bitmap (pages ?fh1 (page_no r)))
                    (num_records_per_page (file_hdr ?fh1)) (slot_no r + 1)")
      case (Some s)
      from scan_slots_Some [OF Some] hdr
      have s: "slot_no r < s" "s < num_records_per_page (file_hdr fh)" by simp_all
      from "1.prems"(1) inr f Some have "r' = r\<lparr>slot_no := s\<rparr>" "fh' = ?fh1" by simp_all
      with s hdr inr show ?thesis by simp
    next
      case None
      let ?r1 = "r\<lparr>page_no := page_no r + 1, slot_no := -1\<rparr>"
      from "1.prems"(1) inr f None have rec: "rm_scan_next ?r1 ?fh1 = Some (Inr u, (r', fh'))"
        by simp
      show ?thesis
      proof (cases "page_no ?r1 < num_pages (file_hdr ?fh1)")
        case True
        from "1.IH" [OF inr f refl refl None rec True] hdr show ?thesis by auto
      next
        case False
        with rec have "r' = \<lparr>page_no = num_pages (file_hdr ?fh1), slot_no = 0\<rparr>" "fh' = ?fh1"
          by auto
        with hdr inr show ?thesis by simp
      qed
    qed
  qed
qed

lemma get_record_file_hdr:
  "get_record r context fh = Some (x, fh') \<Longrightarrow> file_hdr fh' = file_hdr fh"
  by (auto simp: get_record_def bind_o_def fetch_page_handle_def bpm_def lock_shared_def
        unpin_if_context_def Let_def split: if_splits option.splits)

function nextTuple ::
  "'f FloatOps \<Rightarrow> 'f SeqScanExecutor \<Rightarrow> RmFileHandle
     \<Rightarrow> (unit, 'f SeqScanExecutor \<times> RmFileHandle) outcome" where
  "nextTuple F ex fh =
     (case ss_scan ex of
        None \<Rightarrow> Some (Inl NullPointerDereference, (ex, fh))
      | Some sr \<Rightarrow>
          if rm_scan_is_end sr fh then Some (Inr (), (ex, fh))
          else
            (case get_record sr (ss_context ex) fh of
               None \<Rightarrow> None
             | Some (Inl e, fh1) \<Rightarrow> Some (Inl e, (ex\<lparr>ss_rid := sr\<rparr>, fh1))
             | Some (Inr rec, fh1) \<Rightarrow>
                 (case eval_conds F (ss_cols ex) rec (ss_conds ex) of
                    Inl e \<Rightarrow> Some (Inl e, (ex\<lparr>ss_rid := sr\<rparr>, fh1))
                  | Inr satisfies \<Rightarrow>
                      if satisfies then Some (Inr (), (ex\<lparr>ss_rid := sr\<rparr>, fh1))
                      else
                        (case rm_scan_next sr fh1 of
                           None \<Rightarrow> None
                         | Some (Inl e, (sr', fh2)) \<Rightarrow>
                             Some (Inl e, (ex\<lparr>ss_rid := sr, ss_scan := Some sr'\<rparr>, fh2))
                         | Some (Inr u, (sr', fh2)) \<Rightarrow>
                             nextTuple F (ex\<lparr>ss_rid := sr, ss_scan := Some sr'\<rparr>) fh2))))"
  by pat_completeness auto
termination
proof (relation "measures
    [\<lambda>(F, ex, fh). nat (num_pages (file_hdr fh) - page_no (the (ss_scan ex))),
     \<lambda>(F, ex, fh). nat (num_records_per_page (file_hdr fh) - slot_no (the (ss_scan ex)))]")
  show "wf (measures
    [\<lambda>(F :: 'f FloatOps, ex :: 'f SeqScanExecutor, fh).
        nat (num_pages (file_hdr fh) - page_no (the (ss_scan ex))),
     \<lambda>(F, ex, fh). nat (num_records_per_page (file_hdr fh) - slot_no (the (ss_scan ex)))])"
    by simp
next
  fix F :: "'f FloatOps" and ex :: "'f SeqScanExecutor" and fh sr x2 x fh1 rec res x2a xa y sr' fh2 u
  assume sc: "ss_scan ex = Some sr" and ne: "\<not> rm_scan_is_end sr fh"
    and g: "get_record sr (ss_context ex) fh = Some x2" "(x, fh1) = x2"
    and n: "rm_scan_next sr fh1 = Some x2a" "(xa, y) = x2a" "(sr', fh2) = y" "xa = Inr u"
  from g have h1: "file_hdr fh1 = file_hdr fh" by (auto dest: get_record_file_hdr)
  from n have n': "rm_scan_next sr fh1 = Some (Inr u, (sr', fh2))" by simp
  from ne h1 have "page_no sr < num_pages (file_hdr fh1)" by (simp add: rm_scan_is_end_def)
  from rm_scan_next_progress [OF n' this] h1 ne
  show "((F, ex\<lparr>ss_rid := sr, ss_scan := Some sr'\<rparr>, fh2), F, ex, fh)
        \<in> measures
    [\<lambda>(F, ex, fh). nat (num_pages (file_hdr fh) - page_no (the (ss_scan ex))),
     \<lambda>(F, ex, fh). nat (num_records_per_page (file_hdr fh) - slot_no (the (ss_scan ex)))]"
    using sc by (auto simp: rm_scan_is_end_def)
qed

definition beginTuple ::
  "'f FloatOps \<Rightarrow> 'f SeqScanExecutor \<Rightarrow> RmFileHandle
     \<Rightarrow> (unit, 'f SeqScanExecutor \<times> RmFileHandle) outcome" where
  "beginTuple F ex fh =
     (case RmScan fh of
        None \<Rightarrow> None
      | Some (Inl e, (sr, fh1)) \<Rightarrow> Some (Inl e, (ex, fh1))
      | Some (Inr u, (sr, fh1)) \<Rightarrow> nextTuple F (ex\<lparr>ss_scan := Some sr\<rparr>) fh1)"

text \<open>\<^verbatim>\<open>Next()\<close>: \<open>None\<close> as the result is the null pointer.\<close>

definition SeqScan_Next ::
  "'f SeqScanExecutor \<Rightarrow> RmFileHandle
     \<Rightarrow> (byte list option, 'f SeqScanExecutor \<times> RmFileHandle) outcome" where
  "SeqScan_Next ex fh =
     (case ss_scan ex of
        None \<Rightarrow> Some (Inl NullPointerDereference, (ex, fh))
      | Some sr \<Rightarrow>
          if rm_scan_is_end sr fh then Some (Inr None, (ex, fh))
          else
            (case get_record (ss_rid ex) (ss_context ex) fh of
               None \<Rightarrow> None
             | Some (Inl e, fh1) \<Rightarrow> Some (Inl e, (ex, fh1))
             | Some (Inr rec, fh1) \<Rightarrow>
                 (case rm_scan_next sr fh1 of
                    None \<Rightarrow> None
                  | Some (Inl e, (sr', fh2)) \<Rightarrow> Some (Inl e, (ex\<lparr>ss_scan := Some sr'\<rparr>, fh2))
                  | Some (Inr u, (sr', fh2)) \<Rightarrow>
                      Some (Inr (Some rec), (ex\<lparr>ss_scan := Some sr'\<rparr>, fh2)))))"

definition SeqScan_is_end :: "'f SeqScanExecutor \<Rightarrow> RmFileHandle \<Rightarrow> error + bool" where
  "SeqScan_is_end ex fh =
     (case ss_scan ex of
        None \<Rightarrow> Inl NullPointerDereference
      | Some sr \<Rightarrow> Inr (rm_scan_is_end sr fh))"

section \<open>Update (execution/executor\_update.h)\<close>

text \<open>
  A secondary index is an opaque associative index from keys to rids; \<^verbatim>\<open>ihs_\<close> holds
  the open index handles. The index name \<^verbatim>\<open>get_index_name(tab_name, cols)\<close> is a
  function of the table name and the column names, and the model keys \<^verbatim>\<open>ihs_\<close> by
  that pair.
\<close>

type_synonym IxIndexHandle = "byte list \<rightharpoonup> Rid"

type_synonym ihs_t = "string \<times> string list \<Rightarrow> IxIndexHandle option"

definition delete_entry :: "byte list \<Rightarrow> IxIndexHandle \<Rightarrow> IxIndexHandle" where
  \<comment> \<open>Modelled from the spec: the index is an external collaborator supporting
      \<open>delete_entry(key, txn)\<close>.\<close>
  "delete_entry key ih = ih(key := None)"

definition insert_entry :: "byte list \<Rightarrow> Rid \<Rightarrow> IxIndexHandle \<Rightarrow> IxIndexHandle" where
  \<comment> \<open>Modelled from the spec: the index is an external collaborator supporting
      \<open>insert_entry(key, rid, txn)\<close>.\<close>
  "insert_entry key r ih = ih(key \<mapsto> r)"

definition tab_get_col :: "TabMeta \<Rightarrow> string \<Rightarrow> error + ColMeta" where
  \<comment> \<open>Modelled from the spec: \<^verbatim>\<open>TabMeta::get_col\<close> is not among the sources; it finds
      the column of that name and raises \<open>ColumnNotFound\<close> when there is none.\<close>
  "tab_get_col tab name =
     (case find (\<lambda>c. cm_name c = name) (cols tab) of
        None \<Rightarrow> Inl (ColumnNotFoundError name)
      | Some c \<Rightarrow> Inr c)"

record 'f UpdateExecutor =
  ue_tab :: TabMeta
  ue_rids :: "Rid list"
  ue_tab_name :: string
  ue_set_clauses :: "'f SetClause list"
  ue_context :: "Context option"

definition memcpy_at :: "byte list \<Rightarrow> int \<Rightarrow> byte list \<Rightarrow> int \<Rightarrow> byte list" where
  \<comment> \<open>\<^verbatim>\<open>memcpy(data + offset, src, len)\<close>\<close>
  "memcpy_at data off src len =
     take (nat off) data @ take (nat len) src @ drop (nat off + nat len) data"

text \<open>
  The loop over the set clauses. \<open>init_raw\<close> writes the clause's raw buffer, so the
  clauses are returned as the loop leaves them, also when it raises.
\<close>

fun apply_set_clauses ::
  "'f FloatOps \<Rightarrow> TabMeta \<Rightarrow> 'f SetClause list \<Rightarrow> byte list
     \<Rightarrow> (error + byte list) \<times> 'f SetClause list" where
  "apply_set_clauses F tab [] new_rec = (Inr new_rec, [])"
| "apply_set_clauses F tab (set_clause # rest) new_rec =
     (case tab_get_col tab (col_name (set_lhs set_clause)) of
        Inl e \<Rightarrow> (Inl e, set_clause # rest)
      | Inr col \<Rightarrow>
          if cm_type col \<noteq> value_type (set_rhs set_clause)
          then (Inl (IncompatibleTypeError (coltype2str (cm_type col))
                       (coltype2str (value_type (set_rhs set_clause)))),
                set_clause # rest)
          else
            (case init_raw F (cm_len col) (set_rhs set_clause) of
               Inl e \<Rightarrow> (Inl e, set_clause # rest)
             | Inr v \<Rightarrow>
                 (case raw v of
                    None \<Rightarrow> (Inl NullPointerDereference, set_clause\<lparr>set_rhs := v\<rparr> # rest)
                  | Some raw_data \<Rightarrow>
                      let (res, rest') =
                            apply_set_clauses F tab rest
                              (memcpy_at new_rec (cm_offset col) raw_data (cm_len col))
                      in (res, set_clause\<lparr>set_rhs := v\<rparr> # rest'))))"

definition index_key :: "IndexMeta \<Rightarrow> byte list \<Rightarrow> byte list" where
  "index_key index data =
     concat (map (\<lambda>col. take (nat (cm_len col)) (drop (nat (cm_offset col)) data))
               (ix_cols index))"

text \<open>The loop over the indexes of the table, for one row.\<close>

fun update_indexes ::
  "string \<Rightarrow> Context option \<Rightarrow> Rid \<Rightarrow> byte list \<Rightarrow> byte list \<Rightarrow> IndexMeta list \<Rightarrow> ihs_t
     \<Rightarrow> (error + unit) \<times> ihs_t" where
  "update_indexes tn context r rec new_rec [] ihs = (Inr (), ihs)"
| "update_indexes tn context r rec new_rec (index # rest) ihs =
     (let old_key = index_key index rec;
          new_key = index_key index new_rec;
          name = (tn, map cm_name (ix_cols index))
      in case ihs name of
           None \<Rightarrow> (Inl OutOfRange, ihs)
         | Some ih \<Rightarrow>
             (case context of
                None \<Rightarrow> (Inl NullPointerDereference, ihs)
              | Some c \<Rightarrow>
                  update_indexes tn context r rec new_rec rest
                    (ihs(name \<mapsto> insert_entry new_key r (delete_entry old_key ih)))))"

text \<open>The body of the loop over \<^verbatim>\<open>rids_\<close>, for one rid.\<close>

definition update_row ::
  "'f FloatOps \<Rightarrow> Rid \<Rightarrow> 'f UpdateExecutor \<times> RmFileHandle \<times> ihs_t
     \<Rightarrow> (unit, 'f UpdateExecutor \<times> RmFileHandle \<times> ihs_t) outcome" where
  "update_row F r s =
     (let (ex, fh, ihs) = s in
      case get_record r (ue_context ex) fh of
        None \<Rightarrow> None
      | Some (Inl e, fh1) \<Rightarrow> Some (Inl e, (ex, fh1, ihs))
      | Some (Inr rec, fh1) \<Rightarrow>
          (case apply_set_clauses F (ue_tab ex) (ue_set_clauses ex) rec of
             (Inl e, scs) \<Rightarrow> Some (Inl e, (ex\<lparr>ue_set_clauses := scs\<rparr>, fh1, ihs))
           | (Inr new_rec, scs) \<Rightarrow>
               let ex1 = ex\<lparr>ue_set_clauses := scs\<rparr> in
               (case update_indexes (ue_tab_name ex1) (ue_context ex1) r rec new_rec
                       (indexes (ue_tab ex1)) ihs of
                  (Inl e, ihs1) \<Rightarrow> Some (Inl e, (ex1, fh1, ihs1))
                | (Inr u, ihs1) \<Rightarrow>
                    (case update_record r new_rec (ue_context ex1) fh1 of
                       None \<Rightarrow> None
                     | Some (Inl e, fh2) \<Rightarrow> Some (Inl e, (ex1, fh2, ihs1))
                     | Some (Inr u, fh2) \<Rightarrow> Some (Inr (), (ex1, fh2, ihs1))))))"

fun update_rows ::
  "'f FloatOps \<Rightarrow> Rid list \<Rightarrow> 'f UpdateExecutor \<times> RmFileHandle \<times> ihs_t
     \<Rightarrow> (unit, 'f UpdateExecutor \<times> RmFileHandle \<times> ihs_t) outcome" where
  "update_rows F [] s = Some (Inr (), s)"
| "update_rows F (r # rest) s =
     (case update_row F r s of
        None \<Rightarrow> None
      | Some (Inl e, s1) \<Rightarrow> Some (Inl e, s1)
      | Some (Inr u, s1) \<Rightarrow> update_rows F rest s1)"

definition Update_Next ::
  "'f FloatOps \<Rightarrow> 'f UpdateExecutor \<times> RmFileHandle \<times> ihs_t
     \<Rightarrow> (byte list option, 'f UpdateExecutor \<times> RmFileHandle \<times> ihs_t) outcome" where
  "Update_Next F s =
     (let (ex, fh, ihs) = s in
      if ue_rids ex = [] then Some (Inr None, s)
      else
        (case update_rows F (ue_rids ex) s of
           None \<Rightarrow> None
         | Some (Inl e, s1) \<Rightarrow> Some (Inl e, s1)
         | Some (Inr u, (ex1, fh1, ihs1)) \<Rightarrow>
             Some (Inr None, (ex1\<lparr>ue_rids := []\<rparr>, fh1, ihs1))))"

section \<open>Analyzer (analyze/analyze.cpp)\<close>

definition bind_e :: "error + 'a \<Rightarrow> ('a \<Rightarrow> error + 'b) \<Rightarrow> error + 'b" where
  "bind_e m f = (case m of Inl e \<Rightarrow> Inl e | Inr x \<Rightarrow> f x)"

record DbMeta =
  db_tabs :: "string \<rightharpoonup> TabMeta"

definition is_table :: "DbMeta \<Rightarrow> string \<Rightarrow> bool" where
  \<comment> \<open>Modelled from the spec: \<^verbatim>\<open>DbMeta::is_table\<close> is not among the sources.\<close>
  "is_table db name \<longleftrightarrow> db_tabs db name \<noteq> None"

definition get_table :: "DbMeta \<Rightarrow> string \<Rightarrow> error + TabMeta" where
  \<comment> \<open>Modelled from the spec: \<^verbatim>\<open>DbMeta::get_table\<close> is not among the sources; a table
      that does not exist is \<open>TableNotFound\<close>.\<close>
  "get_table db name =
     (case db_tabs db name of None \<Rightarrow> Inl (TableNotFoundError name) | Some t \<Rightarrow> Inr t)"

subsection \<open>The parse tree\<close>

datatype 'f ast_Value = IntLit int | FloatLit 'f | StringLit string | OtherLit

datatype 'f ast_Expr = ast_Value "'f ast_Value" | ast_Col TabCol

datatype SvCompOp = SV_OP_EQ | SV_OP_NE | SV_OP_LT | SV_OP_GT | SV_OP_LE | SV_OP_GE

record 'f BinaryExpr =
  be_lhs :: TabCol
  be_op :: SvCompOp
  be_rhs :: "'f ast_Expr"

text \<open>A set clause of the parse tree; \<open>None\<close> is a value node that is not an \<^verbatim>\<open>ast::Value\<close>.\<close>

record 'f ast_SetClause =
  sc_col_name :: string
  sc_val :: "'f ast_Value option"

datatype 'f TreeNode =
    SelectStmt "string list" "TabCol list" "'f BinaryExpr list"
  | UpdateStmt string "'f ast_SetClause list" "'f BinaryExpr list"
  | DeleteStmt string "'f BinaryExpr list"
  | InsertStmt string "'f ast_Value list"
  | OtherStmt

record 'f Query =
  q_parse :: "'f TreeNode option"
  q_conds :: "'f Condition list"
  q_cols :: "TabCol list"
  q_tables :: "string list"
  q_set_clauses :: "'f SetClause list"
  q_values :: "'f Value list"

definition new_Query :: "'f Query" where
  "new_Query = \<lparr>q_parse = None, q_conds = [], q_cols = [], q_tables = [],
                 q_set_clauses = [], q_values = []\<rparr>"

subsection \<open>Values and operators\<close>

definition set_int :: "'f Value \<Rightarrow> int \<Rightarrow> 'f Value" where
  "set_int v i = v\<lparr>val := INT_VAL i\<rparr>"

definition set_float :: "'f Value \<Rightarrow> 'f \<Rightarrow> 'f Value" where
  "set_float v f = v\<lparr>val := FLOAT_VAL f\<rparr>"

definition set_str :: "'f Value \<Rightarrow> string \<Rightarrow> 'f Value" where
  "set_str v s = v\<lparr>val := STR_VAL s\<rparr>"

text \<open>
  The members \<^verbatim>\<open>int_val\<close> and \<^verbatim>\<open>float_val\<close> of the union. The analyzer reads each only
  under the matching type tag; under another tag the model gives zero.
\<close>

definition int_val :: "'f Value \<Rightarrow> int" where
  "int_val v = (case val v of INT_VAL i \<Rightarrow> i | FLOAT_VAL f \<Rightarrow> 0 | STR_VAL s \<Rightarrow> 0)"

definition float_val :: "'f FloatOps \<Rightarrow> 'f Value \<Rightarrow> 'f" where
  "float_val F v = (case val v of FLOAT_VAL f \<Rightarrow> f | INT_VAL i \<Rightarrow> cast_float F 0
                    | STR_VAL s \<Rightarrow> cast_float F 0)"

definition convert_sv_value :: "'f ast_Value \<Rightarrow> error + 'f Value" where
  "convert_sv_value sv_val =
     (case sv_val of
        IntLit i \<Rightarrow> Inr \<lparr>val = INT_VAL i, raw = None\<rparr>
      | FloatLit f \<Rightarrow> Inr \<lparr>val = FLOAT_VAL f, raw = None\<rparr>
      | StringLit s \<Rightarrow> Inr \<lparr>val = STR_VAL s, raw = None\<rparr>
      | OtherLit \<Rightarrow> Inl (InternalError ''Unexpected sv value type''))"

definition convert_sv_comp_op :: "SvCompOp \<Rightarrow> CompOp" where
  "convert_sv_comp_op o' =
     (case o' of SV_OP_EQ \<Rightarrow> OP_EQ | SV_OP_NE \<Rightarrow> OP_NE | SV_OP_LT \<Rightarrow> OP_LT
      | SV_OP_GT \<Rightarrow> OP_GT | SV_OP_LE \<Rightarrow> OP_LE | SV_OP_GE \<Rightarrow> OP_GE)"

subsection \<open>Columns\<close>

text \<open>
  The loop of \<^verbatim>\<open>check_column\<close> over all columns; \<open>tn\<close> is the local \<^verbatim>\<open>tab_name\<close>, empty
  until a column of the target's name has been seen.
\<close>

fun infer_tab_name :: "ColMeta list \<Rightarrow> string \<Rightarrow> string \<Rightarrow> error + string" where
  "infer_tab_name [] name tn = Inr tn"
| "infer_tab_name (col # rest) name tn =
     (if cm_name col = name
      then (if tn \<noteq> [] then Inl (AmbiguousColumnError name)
            else infer_tab_name rest name (cm_tab_name col))
      else infer_tab_name rest name tn)"

definition check_column :: "ColMeta list \<Rightarrow> TabCol \<Rightarrow> error + TabCol" where
  "check_column all_cols target =
     (if tab_name target = [] then
        bind_e (infer_tab_name all_cols (col_name target) [])
          (\<lambda>tn. if tn = [] then Inl (ColumnNotFoundError (col_name target))
                else Inr (target\<lparr>tab_name := tn\<rparr>))
      else Inr target)"

fun get_all_cols :: "DbMeta \<Rightarrow> string list \<Rightarrow> error + ColMeta list" where
  "get_all_cols db [] = Inr []"
| "get_all_cols db (sel_tab_name # rest) =
     bind_e (get_table db sel_tab_name)
       (\<lambda>t. bind_e (get_all_cols db rest) (\<lambda>cs. Inr (cols t @ cs)))"

subsection \<open>Conditions\<close>

fun get_clause :: "'f BinaryExpr list \<Rightarrow> error + 'f Condition list" where
  "get_clause [] = Inr []"
| "get_clause (expr # rest) =
     bind_e
       (case be_rhs expr of
          ast_Value rhs_val \<Rightarrow>
            bind_e (convert_sv_value rhs_val)
              (\<lambda>v. Inr \<lparr>lhs_col = be_lhs expr, op = convert_sv_comp_op (be_op expr),
                         rhs = RhsVal v\<rparr>)
        | ast_Col rhs_col \<Rightarrow>
            Inr \<lparr>lhs_col = be_lhs expr, op = convert_sv_comp_op (be_op expr),
                 rhs = RhsCol rhs_col\<rparr>)
       (\<lambda>cond. bind_e (get_clause rest) (\<lambda>conds. Inr (cond # conds)))"

definition check_types :: "ColType \<Rightarrow> ColType \<Rightarrow> error + unit" where
  \<comment> \<open>the test at the end of the loop of \<^verbatim>\<open>check_clause\<close>\<close>
  "check_types lhs_type rhs_type =
     (if lhs_type \<noteq> rhs_type \<and>
         \<not> ((lhs_type = TYPE_INT \<and> rhs_type = TYPE_FLOAT) \<or>
            (lhs_type = TYPE_FLOAT \<and> rhs_type = TYPE_INT))
      then Inl (IncompatibleTypeError (coltype2str lhs_type) (coltype2str rhs_type))
      else Inr ())"

text \<open>
  The literal of a WHERE condition against its column: the conversion, then
  \<^verbatim>\<open>init_raw(lhs_col->len)\<close>, then the type test.
\<close>

definition cond_value :: "'f FloatOps \<Rightarrow> ColMeta \<Rightarrow> 'f Value \<Rightarrow> error + 'f Value" where
  "cond_value F lhs_col_meta rhs_val =
     (let lhs_type = cm_type lhs_col_meta;
          v1 = (if lhs_type = TYPE_FLOAT \<and> value_type rhs_val = TYPE_INT
                then set_float rhs_val (cast_float F (int_val rhs_val))
                else if lhs_type = TYPE_INT \<and> value_type rhs_val = TYPE_FLOAT
                then set_int rhs_val (cast_int F (float_val F rhs_val))
                else rhs_val)
      in bind_e (init_raw F (cm_len lhs_col_meta) v1)
           (\<lambda>v2. bind_e (check_types lhs_type (value_type v2)) (\<lambda>u. Inr v2)))"

definition check_cond :: "'f FloatOps \<Rightarrow> DbMeta \<Rightarrow> ColMeta list \<Rightarrow> 'f Condition \<Rightarrow> error + 'f Condition" where
  "check_cond F db all_cols cond =
     bind_e (check_column all_cols (lhs_col cond)) (\<lambda>lhs.
     bind_e (case rhs cond of
               RhsVal v \<Rightarrow> Inr (RhsVal v)
             | RhsCol c \<Rightarrow> bind_e (check_column all_cols c) (\<lambda>c'. Inr (RhsCol c'))) (\<lambda>rhs1.
     bind_e (get_table db (tab_name lhs)) (\<lambda>lhs_tab.
     bind_e (tab_get_col lhs_tab (col_name lhs)) (\<lambda>lhs_col_meta.
       case rhs1 of
         RhsVal v \<Rightarrow>
           bind_e (cond_value F lhs_col_meta v)
             (\<lambda>v2. Inr (cond\<lparr>lhs_col := lhs, rhs := RhsVal v2\<rparr>))
       | RhsCol c \<Rightarrow>
           bind_e (get_table db (tab_name c)) (\<lambda>rhs_tab.
           bind_e (tab_get_col rhs_tab (col_name c)) (\<lambda>rhs_col_meta.
           bind_e (check_types (cm_type lhs_col_meta) (cm_type rhs_col_meta))
             (\<lambda>u. Inr (cond\<lparr>lhs_col := lhs, rhs := RhsCol c\<rparr>))))))))"

fun check_conds :: "'f FloatOps \<Rightarrow> DbMeta \<Rightarrow> ColMeta list \<Rightarrow> 'f Condition list \<Rightarrow> error + 'f Condition list" where
  "check_conds F db all_cols [] = Inr []"
| "check_conds F db all_cols (cond # rest) =
     bind_e (check_cond F db all_cols cond)
       (\<lambda>c. bind_e (check_conds F db all_cols rest) (\<lambda>cs. Inr (c # cs)))"

definition check_clause :: "'f FloatOps \<Rightarrow> DbMeta \<Rightarrow> string list \<Rightarrow> 'f Condition list \<Rightarrow> error + 'f Condition list" where
  "check_clause F db tab_names conds =
     bind_e (get_all_cols db tab_names) (\<lambda>all_cols. check_conds F db all_cols conds)"

subsection \<open>Statements\<close>

fun check_columns :: "ColMeta list \<Rightarrow> TabCol list \<Rightarrow> error + TabCol list" where
  "check_columns all_cols [] = Inr []"
| "check_columns all_cols (sel_col # rest) =
     bind_e (check_column all_cols sel_col)
       (\<lambda>c. bind_e (check_columns all_cols rest) (\<lambda>cs. Inr (c # cs)))"

fun check_tables :: "DbMeta \<Rightarrow> string list \<Rightarrow> error + unit" where
  "check_tables db [] = Inr ()"
| "check_tables db (tn # rest) =
     (if \<not> is_table db tn then Inl (TableNotFoundError tn) else check_tables db rest)"

text \<open>
  The value of a set clause against its column: the conversion, the type test, then
  \<^verbatim>\<open>init_raw(col->len)\<close>.
\<close>

definition set_value :: "'f FloatOps \<Rightarrow> ColMeta \<Rightarrow> 'f Value \<Rightarrow> error + 'f Value" where
  "set_value F col rhs_val =
     bind_e
       (if cm_type col = TYPE_FLOAT \<and> value_type rhs_val = TYPE_INT
        then Inr (set_float rhs_val (cast_float F (int_val rhs_val)))
        else if cm_type col = TYPE_INT \<and> value_type rhs_val = TYPE_FLOAT
        then Inr (set_int rhs_val (cast_int F (float_val F rhs_val)))
        else if cm_type col \<noteq> value_type rhs_val
        then Inl (IncompatibleTypeError (coltype2str (cm_type col))
                    (coltype2str (value_type rhs_val)))
        else Inr rhs_val)
       (\<lambda>v1. init_raw F (cm_len col) v1)"

definition analyze_set_clause ::
  "'f FloatOps \<Rightarrow> DbMeta \<Rightarrow> ColMeta list \<Rightarrow> string \<Rightarrow> 'f ast_SetClause \<Rightarrow> error + 'f SetClause" where
  "analyze_set_clause F db all_cols tn sv_set =
     bind_e (check_column all_cols \<lparr>tab_name = tn, col_name = sc_col_name sv_set\<rparr>) (\<lambda>lhs.
       case sc_val sv_set of
         None \<Rightarrow> Inl (InternalError ''Unexpected value type in set clause'')
       | Some rhs_val \<Rightarrow>
           bind_e (convert_sv_value rhs_val) (\<lambda>v.
           bind_e (get_table db (tab_name lhs)) (\<lambda>tab.
           bind_e (tab_get_col tab (col_name lhs)) (\<lambda>col.
           bind_e (set_value F col v) (\<lambda>v'. Inr \<lparr>set_lhs = lhs, set_rhs = v'\<rparr>)))))"

fun analyze_set_clauses ::
  "'f FloatOps \<Rightarrow> DbMeta \<Rightarrow> ColMeta list \<Rightarrow> string \<Rightarrow> 'f ast_SetClause list
     \<Rightarrow> error + 'f SetClause list" where
  "analyze_set_clauses F db all_cols tn [] = Inr []"
| "analyze_set_clauses F db all_cols tn (sv_set # rest) =
     bind_e (analyze_set_clause F db all_cols tn sv_set)
       (\<lambda>c. bind_e (analyze_set_clauses F db all_cols tn rest) (\<lambda>cs. Inr (c # cs)))"

fun convert_values :: "'f ast_Value list \<Rightarrow> error + 'f Value list" where
  "convert_values [] = Inr []"
| "convert_values (sv_val # rest) =
     bind_e (convert_sv_value sv_val)
       (\<lambda>v. bind_e (convert_values rest) (\<lambda>vs. Inr (v # vs)))"

text \<open>
  The parse tree as \<^verbatim>\<open>query->parse\<close> holds it at the end. For a SELECT the analyzer has
  moved the table list out of the statement (\<^verbatim>\<open>query->tables = std::move(x->tabs)\<close>),
  which leaves the statement's own list empty; the other statements are not changed.
\<close>

definition moved_from :: "'f TreeNode \<Rightarrow> 'f TreeNode" where
  "moved_from parse =
     (case parse of
        SelectStmt x_tabs x_cols x_conds \<Rightarrow> SelectStmt [] x_cols x_conds
      | UpdateStmt x_tab_name x_set_clauses x_conds \<Rightarrow> parse
      | DeleteStmt x_tab_name x_conds \<Rightarrow> parse
      | InsertStmt x_tab_name x_vals \<Rightarrow> parse
      | OtherStmt \<Rightarrow> parse)"

definition do_analyze :: "'f FloatOps \<Rightarrow> DbMeta \<Rightarrow> 'f TreeNode \<Rightarrow> error + 'f Query" where
  "do_analyze F db parse =
     bind_e
       (case parse of
          SelectStmt x_tabs x_cols x_conds \<Rightarrow>
            bind_e (check_tables db x_tabs) (\<lambda>u.
            bind_e (get_all_cols db x_tabs) (\<lambda>all_cols.
            bind_e (if x_cols = []
                    then Inr (map (\<lambda>col. \<lparr>tab_name = cm_tab_name col, col_name = cm_name col\<rparr>)
                                all_cols)
                    else check_columns all_cols x_cols) (\<lambda>sel_cols.
            bind_e (get_clause x_conds) (\<lambda>conds.
            bind_e (check_clause F db x_tabs conds) (\<lambda>conds'.
              Inr (new_Query\<lparr>q_tables := x_tabs, q_cols := sel_cols, q_conds := conds'\<rparr>))))))
        | UpdateStmt x_tab_name x_set_clauses x_conds \<Rightarrow>
            bind_e (get_clause x_conds) (\<lambda>conds.
            bind_e (check_clause F db [x_tab_name] conds) (\<lambda>conds'.
            bind_e (get_all_cols db [x_tab_name]) (\<lambda>all_cols.
            bind_e (analyze_set_clauses F db all_cols x_tab_name x_set_clauses) (\<lambda>scs.
              Inr (new_Query\<lparr>q_tables := [x_tab_name], q_conds := conds',
                             q_set_clauses := scs\<rparr>)))))
        | DeleteStmt x_tab_name x_conds \<Rightarrow>
            bind_e (get_clause x_conds) (\<lambda>conds.
            bind_e (check_clause F db [x_tab_name] conds) (\<lambda>conds'.
              Inr (new_Query\<lparr>q_conds := conds'\<rparr>)))
        | InsertStmt x_tab_name x_vals \<Rightarrow>
            bind_e (convert_values x_vals) (\<lambda>vs. Inr (new_Query\<lparr>q_values := vs\<rparr>))
        | OtherStmt \<Rightarrow> Inr new_Query)
       (\<lambda>query. Inr (query\<lparr>q_parse := Some (moved_from parse)\<rparr>))"

section \<open>Example inputs\<close>

definition lm0 :: LogManager where
  "lm0 = \<lparr>global_lsn = 1, persist_lsn = -1,
           log_buffer = [(BeginLogRecord 1)\<lparr>lsn := 1\<rparr>], buffer_offset = 29,
           LOG_BUFFER_SIZE = 4096, latch = False, log_file = [], write_log_fails = False\<rparr>"

definition t0 :: Transaction where
  "t0 = (new_Transaction 1)\<lparr>state := GROWING, prev_lsn := 1, lock_set := [(3, 1, 0)]\<rparr>"

definition tm0 :: TransactionManager where
  "tm0 = \<lparr>next_txn_id = 2, next_timestamp = 2, txn_map = Map.empty, tm_latch = False,
           heap = [0 \<mapsto> t0], next_addr = 1\<rparr>"

definition grant_all :: LockManager where
  "grant_all = \<lparr>lock_shared_on_record = (\<lambda>t r f. True),
                 lock_exclusive_on_record = (\<lambda>t r f. True)\<rparr>"

definition ctx1 :: "Context option" where
  "ctx1 = Some \<lparr>ctx_txn = Some 1, lock_mgr = grant_all, ctx_log_mgr = True\<rparr>"

text \<open>
  A table file with 2-byte records, four slots per page and one data page holding the
  records \<open>[7, 7]\<close> in slot 0 and \<open>[1, 10]\<close> in slot 1.
\<close>

definition fh_two :: RmFileHandle where
  "fh_two =
     \<lparr>fd = 3,
      file_hdr = \<lparr>record_size = 2, num_pages = 2, num_records_per_page = 4,
                  first_free_page_no = 1, bitmap_size = 1\<rparr>,
      pages = (\<lambda>p. \<lparr>next_free_page_no = RM_NO_PAGE, num_records = 2,
                     bitmap = (\<lambda>s. s = 0 \<or> s = 1),
                     slots = (\<lambda>s. if s = 0 then [7, 7] else if s = 1 then [1, 10] else [0, 0])\<rparr>),
      bpm_calls = []\<rparr>"

text \<open>The same page in a file with two slots per page: the page is full and off the free chain.\<close>

definition fh_full :: RmFileHandle where
  "fh_full =
     fh_two\<lparr>file_hdr := (file_hdr fh_two)
               \<lparr>num_records_per_page := 2, first_free_page_no := RM_NO_PAGE\<rparr>\<rparr>"

text \<open>
  A transaction on \<open>fh_two\<close> that updates the record at \<open>(1, 1)\<close> from \<open>[1, 10]\<close> to
  \<open>[2, 20]\<close>, deletes the record at \<open>(1, 0)\<close> and then deletes the record at \<open>(1, 1)\<close>;
  its write set holds the three before-images in that order.
\<close>

definition t_abort :: Transaction where
  "t_abort =
     (new_Transaction 1)
       \<lparr>state := GROWING, prev_lsn := 1,
        write_set :=
          [\<lparr>wtype = UPDATE_TUPLE, w_tab_name = ''t'', w_rid = \<lparr>page_no = 1, slot_no = 1\<rparr>,
            w_record = [1, 10]\<rparr>,
           \<lparr>wtype = DELETE_TUPLE, w_tab_name = ''t'', w_rid = \<lparr>page_no = 1, slot_no = 0\<rparr>,
            w_record = [7, 7]\<rparr>,
           \<lparr>wtype = DELETE_TUPLE, w_tab_name = ''t'', w_rid = \<lparr>page_no = 1, slot_no = 1\<rparr>,
            w_record = [2, 20]\<rparr>]\<rparr>"

text \<open>A scan of \<open>fh_two\<close> with no condition.\<close>

definition ss_ex :: "'f SeqScanExecutor" where
  "ss_ex =
     \<lparr>ss_conds = [],
      ss_cols = [\<lparr>cm_tab_name = ''t'', cm_name = ''s'', cm_type = TYPE_STRING, cm_len = 2,
                  cm_offset = 0\<rparr>],
      ss_rid = \<lparr>page_no = 0, slot_no = 0\<rparr>, ss_scan = None, ss_context = ctx1\<rparr>"

text \<open>
  The table \<open>t(k: INT, v: INT)\<close> with an index on \<open>k\<close>, holding the row \<open>(1, 10)\<close> at rid
  \<open>(1, 0)\<close>; the statement \<open>UPDATE t SET k = 2\<close> on that rid, in a transaction to which
  the lock manager grants shared locks and refuses exclusive ones.
\<close>

definition col_k :: ColMeta where
  "col_k = \<lparr>cm_tab_name = ''t'', cm_name = ''k'', cm_type = TYPE_INT, cm_len = 4, cm_offset = 0\<rparr>"

definition col_v :: ColMeta where
  "col_v = \<lparr>cm_tab_name = ''t'', cm_name = ''v'', cm_type = TYPE_INT, cm_len = 4, cm_offset = 4\<rparr>"

definition tab_kv :: TabMeta where
  "tab_kv = \<lparr>tm_name = ''t'', cols = [col_k, col_v],
             indexes = [\<lparr>ix_tab_name = ''t'', col_tot_len = 4, ix_cols = [col_k]\<rparr>]\<rparr>"

definition fh_kv :: RmFileHandle where
  "fh_kv =
     \<lparr>fd = 3,
      file_hdr = \<lparr>record_size = 8, num_pages = 2, num_records_per_page = 4,
                  first_free_page_no = 1, bitmap_size = 1\<rparr>,
      pages = (\<lambda>p. \<lparr>next_free_page_no = RM_NO_PAGE, num_records = 1,
                     bitmap = (\<lambda>s. s = 0),
                     slots = (\<lambda>s. if s = 0 then [1, 0, 0, 0, 10, 0, 0, 0]
                                   else [0, 0, 0, 0, 0, 0, 0, 0])\<rparr>),
      bpm_calls = []\<rparr>"

definition ctx_refuse :: "Context option" where
  "ctx_refuse =
     Some \<lparr>ctx_txn = Some 1,
           lock_mgr = \<lparr>lock_shared_on_record = (\<lambda>t r f. True),
                       lock_exclusive_on_record = (\<lambda>t r f. False)\<rparr>,
           ctx_log_mgr = True\<rparr>"

definition ue_ex :: "'f UpdateExecutor" where
  "ue_ex =
     \<lparr>ue_tab = tab_kv, ue_rids = [\<lparr>page_no = 1, slot_no = 0\<rparr>], ue_tab_name = ''t'',
      ue_set_clauses =
        [\<lparr>set_lhs = \<lparr>tab_name = ''t'', col_name = ''k''\<rparr>,
          set_rhs = \<lparr>val = INT_VAL 2, raw = Some [2, 0, 0, 0]\<rparr>\<rparr>],
      ue_context = ctx_refuse\<rparr>"

definition ihs0 :: ihs_t where
  "ihs0 = (\<lambda>n. None)((''t'', [''k'']) \<mapsto> [[1, 0, 0, 0] \<mapsto> \<lparr>page_no = 1, slot_no = 0\<rparr>])"

definition db0 :: DbMeta where
  "db0 = \<lparr>db_tabs = [''t'' \<mapsto> tab_kv]\<rparr>"

section \<open>The log manager\<close>

lemma add_log_ok:
  "\<not> latch lm \<Longrightarrow> \<not> is_full lm (log_tot_len r) \<Longrightarrow>
   add_log_to_buffer r lm =
     Some (Inr (global_lsn lm + 1),
           lm\<lparr>global_lsn := global_lsn lm + 1,
               log_buffer := log_buffer lm @ [r\<lparr>lsn := global_lsn lm + 1\<rparr>],
               buffer_offset := buffer_offset lm + log_tot_len r\<rparr>)"
  by (simp add: add_log_to_buffer_def is_full_def Let_def)

text \<open>
  When the buffer cannot take the record, \<open>add_log_to_buffer\<close> calls \<open>flush_log_to_disk\<close>
  with the latch held, and that call waits for the latch: neither returns.
\<close>

lemma add_log_full:
  "\<not> latch lm \<Longrightarrow> is_full lm (log_tot_len r) \<Longrightarrow> add_log_to_buffer r lm = None"
  by (simp add: add_log_to_buffer_def is_full_def flush_log_to_disk_def bind_o_def Let_def)

lemma flush_nonempty:
  "\<not> latch lm \<Longrightarrow> buffer_offset lm \<noteq> 0 \<Longrightarrow>
   flush_log_to_disk lm =
     (if write_log_fails lm then Some (Inl UnixError, lm)
      else Some (Inr (), lm\<lparr>log_file := log_file lm @ log_buffer lm,
                           persist_lsn := global_lsn lm, log_buffer := [],
                           buffer_offset := 0\<rparr>))"
  by (simp add: flush_log_to_disk_def write_log_def Let_def)

text \<open>
  C9. The claim: every call of \<open>add_log_to_buffer\<close> returns, also when the buffer is full.
  On the code: with one 29-byte record in a 40-byte buffer, appending a second 29-byte
  record takes the flush path, which locks the latch that \<open>add_log_to_buffer\<close> holds;
  the call never returns.
\<close>

theorem add_log_to_buffer_full_never_returns:
  "add_log_to_buffer (CommitLogRecord 1)
     \<lparr>global_lsn = 1, persist_lsn = -1,
      log_buffer = [(BeginLogRecord 1)\<lparr>lsn := 1\<rparr>], buffer_offset = 29,
      LOG_BUFFER_SIZE = 40, latch = False, log_file = [], write_log_fails = False\<rparr> = None"
  by (simp add: add_log_to_buffer_def is_full_def flush_log_to_disk_def bind_o_def Let_def
        CommitLogRecord_def LOG_HEADER_SIZE_def)

section \<open>Begin and commit\<close>

text \<open>
  C10. \<open>begin\<close> on an existing transaction (a non-null pointer to a live object, the
  manager's latch free) returns the pointer and changes nothing but the entry of
  \<open>txn_map\<close> under the transaction's id: the heap, and so every field of the transaction,
  the counters and the log manager are as before, whether or not a log manager is passed.
\<close>

theorem begin_txn_existing:
  assumes "heap tm p = Some t" and "\<not> tm_latch tm"
  shows "begin_txn (Some p) log_manager (tm, lm)
           = Some (Inr p, (tm\<lparr>txn_map := (txn_map tm)(txn_id t \<mapsto> p)\<rparr>, lm))"
  using assms by (simp add: begin_txn_def bind_o_def)

theorem begin_txn_existing_witness:
  "heap tm0 0 = Some t0 \<and> \<not> tm_latch tm0 \<and>
   begin_txn (Some 0) True (tm0, lm0) = Some (Inr 0, (tm0\<lparr>txn_map := [1 \<mapsto> 0]\<rparr>, lm0))"
proof -
  have h1: "heap tm0 0 = Some t0" by (simp add: tm0_def)
  have h2: "\<not> tm_latch tm0" by (simp add: tm0_def)
  have a: "txn_id t0 = 1" by (simp add: t0_def new_Transaction_def)
  have b: "txn_map tm0 = Map.empty" by (simp add: tm0_def)
  have "begin_txn (Some 0) True (tm0, lm0) = Some (Inr 0, (tm0\<lparr>txn_map := [1 \<mapsto> 0]\<rparr>, lm0))"
    using begin_txn_existing [OF h1 h2, of True lm0] unfolding a b .
  then show ?thesis by (rule conjI [OF h1 conjI [OF h2]])
qed

lemma fold_unlock_fields:
  "txn_id (fold (\<lambda>i t. unlock t i) ls t) = txn_id t \<and>
   prev_lsn (fold (\<lambda>i t. unlock t i) ls t) = prev_lsn t \<and>
   (state t \<noteq> COMMITTED \<longrightarrow> state (fold (\<lambda>i t. unlock t i) ls t) \<noteq> COMMITTED)"
  by (induction ls arbitrary: t) (auto simp: unlock_def)

lemma on_disk_after:
  assumes "all_logged lm" and "lsn r = global_lsn lm + 1"
  shows "list_all (\<lambda>l. l \<in> lsn ` set (log_file lm @ log_buffer lm @ [r])) [1 .. global_lsn lm + 1]"
proof -
  have "l \<in> lsn ` set (log_file lm @ log_buffer lm @ [r])"
    if "1 \<le> l" and "l \<le> global_lsn lm + 1" for l
  proof (cases "l = global_lsn lm + 1")
    case True
    with assms(2) show ?thesis by force
  next
    case False
    with that have "l \<in> set [1 .. global_lsn lm]" by simp
    with assms(1) have "l \<in> lsn ` set (log_file lm @ log_buffer lm)"
      unfolding all_logged_def list_all_iff by blast
    then show ?thesis by auto
  qed
  then show ?thesis by (simp add: list_all_iff)
qed

text \<open>
  \<open>all_logged\<close> holds for a fresh log manager and is kept by every call that returns or
  raises.
\<close>

lemma all_logged_flush:
  assumes "all_logged lm" and "flush_log_to_disk lm = Some (x, lm')"
  shows "all_logged lm'"
proof -
  from assms(2) have
    "global_lsn lm' = global_lsn lm \<and>
     set (log_file lm' @ log_buffer lm') = set (log_file lm @ log_buffer lm)"
    by (auto simp: flush_log_to_disk_def write_log_def Let_def split: if_splits)
  with assms(1) show ?thesis by (simp add: all_logged_def)
qed

lemma all_logged_add_log:
  assumes "all_logged lm" and "add_log_to_buffer r lm = Some (x, lm')"
  shows "all_logged lm'"
proof (cases "latch lm \<or> is_full lm (log_tot_len r)")
  case True
  have "add_log_to_buffer r lm = None"
  proof (cases "latch lm")
    case True
    then show ?thesis by (simp add: add_log_to_buffer_def)
  next
    case False
    with \<open>latch lm \<or> is_full lm (log_tot_len r)\<close> show ?thesis by (simp add: add_log_full)
  qed
  with assms(2) show ?thesis by simp
next
  case False
  with assms(2) add_log_ok [of lm r]
  have lm': "lm' = lm\<lparr>global_lsn := global_lsn lm + 1,
               log_buffer := log_buffer lm @ [r\<lparr>lsn := global_lsn lm + 1\<rparr>],
               buffer_offset := buffer_offset lm + log_tot_len r\<rparr>"
    by simp
  from on_disk_after [OF assms(1), of "r\<lparr>lsn := global_lsn lm + 1\<rparr>"]
  show ?thesis by (simp add: lm' all_logged_def)
qed

lemma all_logged_initial:
  "all_logged \<lparr>global_lsn = 0, persist_lsn = INVALID_LSN, log_buffer = [], buffer_offset = 0,
               LOG_BUFFER_SIZE = n, latch = False, log_file = [], write_log_fails = b\<rparr>"
  by (simp add: all_logged_def)

text \<open>
  C2. \<open>commit\<close> with a log manager, on a transaction that is not yet committed, the log
  latch free, and every LSN handed out so far in the log file or the buffer.
  \<^item> When it returns, the transaction is COMMITTED, its final LSN is the fresh
    \<open>global_lsn\<close>, \<open>persist_lsn\<close> equals \<open>global_lsn\<close>, the COMMIT record chained to the
    transaction's previous LSN is in the log file, and so is a record for every LSN up
    to the final one.
  \<^item> When it raises, the write to the log file has failed and the transaction is not
    COMMITTED.
  \<^item> It returns whenever the buffer has room for the COMMIT record and the write does
    not fail. (With no room it does not return: see \<open>add_log_full\<close>.)
\<close>

theorem commit_flushes_before_committed:
  assumes "state txn \<noteq> COMMITTED" and "\<not> latch lm" and "0 \<le> buffer_offset lm"
    and "all_logged lm"
  shows "(case commit txn True lm of
            None \<Rightarrow> is_full lm LOG_HEADER_SIZE
          | Some (Inl e, txn', lm') \<Rightarrow>
              write_log_fails lm \<and> e = UnixError \<and> state txn' \<noteq> COMMITTED
          | Some (Inr u, txn', lm') \<Rightarrow>
              state txn' = COMMITTED \<and>
              prev_lsn txn' = global_lsn lm + 1 \<and>
              global_lsn lm' = prev_lsn txn' \<and>
              persist_lsn lm' = global_lsn lm' \<and>
              (CommitLogRecord (txn_id txn))\<lparr>log_prev_lsn := prev_lsn txn, lsn := prev_lsn txn'\<rparr>
                 \<in> set (log_file lm') \<and>
              on_disk_upto lm' (prev_lsn txn')) \<and>
         (\<not> is_full lm LOG_HEADER_SIZE \<and> \<not> write_log_fails lm
            \<longrightarrow> (\<exists>txn' lm'. commit txn True lm = Some (Inr (), (txn', lm'))))"
proof (cases "is_full lm LOG_HEADER_SIZE")
  case True
  with assms(1,2) show ?thesis
    by (simp add: commit_def bind_o_def Let_def add_log_full CommitLogRecord_def)
next
  case False
  let ?t1 = "fold (\<lambda>lock_data_id t. unlock t lock_data_id) (lock_set txn) txn"
  let ?r = "(CommitLogRecord (txn_id txn))\<lparr>log_prev_lsn := prev_lsn txn\<rparr>"
  let ?lm1 = "lm\<lparr>global_lsn := global_lsn lm + 1,
               log_buffer := log_buffer lm @ [?r\<lparr>lsn := global_lsn lm + 1\<rparr>],
               buffer_offset := buffer_offset lm + log_tot_len ?r\<rparr>"
  have f: "txn_id ?t1 = txn_id txn" "prev_lsn ?t1 = prev_lsn txn" "state ?t1 \<noteq> COMMITTED"
    using fold_unlock_fields[of "lock_set txn" txn] assms(1) by auto
  have len: "log_tot_len ?r = LOG_HEADER_SIZE" by (simp add: CommitLogRecord_def)
  have a: "add_log_to_buffer ?r lm = Some (Inr (global_lsn lm + 1), ?lm1)"
    using add_log_ok[of lm ?r] assms(2) False len by simp
  have "buffer_offset ?lm1 \<noteq> 0" using assms(3) len by (simp add: LOG_HEADER_SIZE_def)
  then have fl: "flush_log_to_disk ?lm1 =
     (if write_log_fails lm then Some (Inl UnixError, ?lm1)
      else Some (Inr (), ?lm1\<lparr>log_file := log_file ?lm1 @ log_buffer ?lm1,
                           persist_lsn := global_lsn ?lm1, log_buffer := [],
                           buffer_offset := 0\<rparr>))"
    using flush_nonempty[of ?lm1] assms(2) by simp
  have od: "list_all (\<lambda>l. l \<in> lsn ` set (log_file lm @ log_buffer lm @ [?r\<lparr>lsn := global_lsn lm + 1\<rparr>]))
              [1 .. global_lsn lm + 1]"
    using on_disk_after[OF assms(4), of "?r\<lparr>lsn := global_lsn lm + 1\<rparr>"] by simp
  show ?thesis
    using assms(1) False f a fl od
    by (simp add: commit_def bind_o_def Let_def on_disk_upto_def)
qed

theorem commit_flushes_before_committed_witness:
  "state t0 \<noteq> COMMITTED \<and> \<not> latch lm0 \<and> 0 \<le> buffer_offset lm0 \<and> all_logged lm0 \<and>
   \<not> is_full lm0 LOG_HEADER_SIZE \<and> \<not> write_log_fails lm0 \<and>
   (\<exists>txn' lm'. commit t0 True lm0 = Some (Inr (), (txn', lm')) \<and>
      state txn' = COMMITTED \<and> prev_lsn txn' = 2 \<and> persist_lsn lm' = 2 \<and>
      on_disk_upto lm' 2)"
proof -
  have h1: "state t0 \<noteq> COMMITTED" by (simp add: t0_def new_Transaction_def)
  have h2: "\<not> latch lm0" by (simp add: lm0_def)
  have h3: "0 \<le> buffer_offset lm0" by (simp add: lm0_def)
  have h4: "all_logged lm0" by (simp add: all_logged_def lm0_def)
  have h5: "\<not> is_full lm0 LOG_HEADER_SIZE"
    by (simp add: is_full_def lm0_def LOG_HEADER_SIZE_def)
  have h6: "\<not> write_log_fails lm0" by (simp add: lm0_def)
  have g: "global_lsn lm0 + 1 = 2" by (simp add: lm0_def)
  note th = commit_flushes_before_committed [OF h1 h2 h3 h4]
  from th [THEN conjunct2, rule_format, OF conjI [OF h5 h6]]
  obtain txn' lm' where c: "commit t0 True lm0 = Some (Inr (), (txn', lm'))"
    by (elim exE)
  have p: "state txn' = COMMITTED \<and> prev_lsn txn' = global_lsn lm0 + 1 \<and>
        global_lsn lm' = prev_lsn txn' \<and> persist_lsn lm' = global_lsn lm' \<and>
        (CommitLogRecord (txn_id t0))\<lparr>log_prev_lsn := prev_lsn t0, lsn := prev_lsn txn'\<rparr>
                 \<in> set (log_file lm') \<and>
        on_disk_upto lm' (prev_lsn txn')"
    using th [THEN conjunct1] unfolding c option.case prod.case sum.case .
  from p have p1: "state txn' = COMMITTED" by (rule conjunct1)
  from p have p2: "prev_lsn txn' = 2" unfolding g by (rule conjunct2 [THEN conjunct1])
  from p have p3: "global_lsn lm' = prev_lsn txn'"
    by (rule conjunct2 [THEN conjunct2, THEN conjunct1])
  from p have p4: "persist_lsn lm' = global_lsn lm'"
    by (rule conjunct2 [THEN conjunct2, THEN conjunct2, THEN conjunct1])
  from p have p5: "on_disk_upto lm' (prev_lsn txn')"
    by (rule conjunct2 [THEN conjunct2, THEN conjunct2, THEN conjunct2, THEN conjunct2])
  have q3: "persist_lsn lm' = 2" unfolding p4 p3 p2 by (rule refl)
  have q4: "on_disk_upto lm' 2" using p5 unfolding p2 .
  have "commit t0 True lm0 = Some (Inr (), (txn', lm')) \<and>
      state txn' = COMMITTED \<and> prev_lsn txn' = 2 \<and> persist_lsn lm' = 2 \<and>
      on_disk_upto lm' 2"
    by (rule conjI [OF c conjI [OF p1 conjI [OF p2 conjI [OF q3 q4]]]])
  then have e: "\<exists>txn' lm'. commit t0 True lm0 = Some (Inr (), (txn', lm')) \<and>
      state txn' = COMMITTED \<and> prev_lsn txn' = 2 \<and> persist_lsn lm' = 2 \<and>
      on_disk_upto lm' 2"
    by (intro exI)
  show ?thesis
    by (rule conjI [OF h1 conjI [OF h2 conjI [OF h3 conjI [OF h4 conjI [OF h5 conjI [OF h6 e]]]]]])
qed

section \<open>The record manager\<close>

lemmas rm_defs = get_record_def insert_record_def insert_record_at_def delete_record_def
  update_record_def fetch_page_handle_def create_new_page_handle_def release_page_handle_def
  bind_o_def bpm_def lock_shared_def lock_exclusive_def unpin_if_context_def write_slot_def
  is_set_def set_bit_def reset_bit_def init_bitmap_def first_bit_def RM_NO_PAGE_def Let_def

lemma upto_0_3: "[0 .. 3::int] = [0, 1, 2, 3]"
  by (simp add: upto.simps)

lemma upto_1_1: "[1 .. 1::int] = [1]"
  by (simp add: upto.simps)

text \<open>
  C4. The claim: every fetch is paired with exactly one unpin before the operation returns,
  for every context and every scan step. On the code, for a page holding records in
  slots 0 and 1:
  \<^item> \<open>get_record\<close> with a null context fetches page 1 and returns without an unpin (the
    unpin is under \<^verbatim>\<open>if (context != nullptr)\<close>);
  \<^item> \<open>RmScan::next\<close> fetches page 1 and returns without an unpin;
  \<^item> \<open>delete_record\<close> with a context on a full page unpins twice for one fetch, once in
    \<open>release_page_handle\<close> and once at its own end;
  \<^item> \<open>get_record\<close> on an empty slot raises after the fetch, without an unpin.
\<close>

theorem pins_not_paired:
  "(\<exists>fh'. get_record \<lparr>page_no = 1, slot_no = 0\<rparr> None fh_two = Some (Inr [7, 7], fh') \<and>
      bpm_calls fh' = [fetch_page 1]) \<and>
   (\<exists>fh'. rm_scan_next \<lparr>page_no = 1, slot_no = -1\<rparr> fh_two
            = Some (Inr (), (\<lparr>page_no = 1, slot_no = 0\<rparr>, fh')) \<and>
      bpm_calls fh' = [fetch_page 1]) \<and>
   (\<exists>fh'. delete_record \<lparr>page_no = 1, slot_no = 0\<rparr> ctx1 fh_full = Some (Inr (), fh') \<and>
      bpm_calls fh' = [fetch_page 1, unpin_page 1 True, unpin_page 1 True]) \<and>
   (\<exists>fh'. get_record \<lparr>page_no = 1, slot_no = 2\<rparr> ctx1 fh_two
            = Some (Inl (RecordNotFoundError 1 2), fh') \<and>
      bpm_calls fh' = [fetch_page 1])"
  by (simp add: rm_defs fh_two_def fh_full_def ctx1_def grant_all_def)

text \<open>
  C3. The claim: after any sequence of \<open>insert_record\<close>, \<open>delete_record\<close> and insert-at-rid
  from an empty file, the free chain holds exactly the pages that are not full, each once.
  On the code, with two slots per page: an insert and an insert at rid \<open>(1, 1)\<close> fill page
  1, and the page stays at the head of the chain (insert-at-rid does not unlink it, as
  \<open>insert_record\<close> does). A delete on that page then links it in front of itself: the chain
  is the cycle \<open>1, 1, ...\<close> and never reaches \<open>RM_NO_PAGE\<close>.
\<close>

theorem free_chain_holds_full_page:
  "\<exists>fh1 fh2 fh3.
     insert_record [5, 5] None (empty_file 3 2 2) = Some (Inr \<lparr>page_no = 1, slot_no = 0\<rparr>, fh1) \<and>
     insert_record_at \<lparr>page_no = 1, slot_no = 1\<rparr> [6, 6] fh1 = Some (Inr (), fh2) \<and>
     num_records (pages fh2 1) = num_records_per_page (file_hdr fh2) \<and>
     free_chain 2 fh2 = Some [1] \<and> non_full_pages fh2 = [] \<and>
     delete_record \<lparr>page_no = 1, slot_no = 0\<rparr> None fh2 = Some (Inr (), fh3) \<and>
     first_free_page_no (file_hdr fh3) = 1 \<and> next_free_page_no (pages fh3 1) = 1 \<and>
     non_full_pages fh3 = [1] \<and> free_chain 8 fh3 = None"
  by (simp add: rm_defs empty_file_def create_page_handle.simps free_chain_def
        non_full_pages_def numeral_nat)

text \<open>
  Once the page such a cycle runs through is full again, \<open>create_page_handle\<close> unlinks the
  head, finds the same page as the new head, and recurses without end: \<open>insert_record\<close>
  does not return.
\<close>

lemma create_page_handle_loops:
  assumes "first_free_page_no (file_hdr fh) = p" and "p \<noteq> RM_NO_PAGE"
    and "0 \<le> p" and "p < num_pages (file_hdr fh)"
    and "num_records (pages fh p) = num_records_per_page (file_hdr fh)"
    and "next_free_page_no (pages fh p) = p"
  shows "create_page_handle fh = None"
proof (rule ccontr)
  assume "create_page_handle fh \<noteq> None"
  then obtain y where y: "create_page_handle fh = Some y" by auto
  define loops where "loops fh \<longleftrightarrow>
     first_free_page_no (file_hdr fh) \<noteq> RM_NO_PAGE \<and>
     0 \<le> first_free_page_no (file_hdr fh) \<and>
     first_free_page_no (file_hdr fh) < num_pages (file_hdr fh) \<and>
     num_records (pages fh (first_free_page_no (file_hdr fh))) = num_records_per_page (file_hdr fh) \<and>
     next_free_page_no (pages fh (first_free_page_no (file_hdr fh))) = first_free_page_no (file_hdr fh)"
    for fh :: RmFileHandle
  have "\<not> loops fh"
  proof (rule create_page_handle.raw_induct [where P = "\<lambda>fh y. \<not> loops fh", OF _ y])
    fix cph fh y
    assume IH: "\<And>fh y. cph fh = Some y \<Longrightarrow> \<not> loops fh"
      and step: "(if first_free_page_no (file_hdr fh) = RM_NO_PAGE
         then create_new_page_handle fh
         else case fetch_page_handle (first_free_page_no (file_hdr fh)) fh of
            None \<Rightarrow> None | Some (Inl e, fh1) \<Rightarrow> Some (Inl e, fh1)
          | Some (Inr p, fh1) \<Rightarrow>
              if num_records (pages fh1 p) = num_records_per_page (file_hdr fh1)
              then cph (bpm (unpin_page p False)
                     (fh1\<lparr>file_hdr := (file_hdr fh1)
                            \<lparr>first_free_page_no := next_free_page_no (pages fh1 p)\<rparr>\<rparr>))
              else Some (Inr p, fh1)) = Some y"
    show "\<not> loops fh"
    proof
      assume l: "loops fh"
      let ?p = "first_free_page_no (file_hdr fh)"
      let ?fh' = "fh\<lparr>bpm_calls := bpm_calls fh @ [fetch_page ?p, unpin_page ?p False]\<rparr>"
      from l step have a: "cph ?fh' = Some y"
        by (simp add: loops_def fetch_page_handle_def bpm_def)
      from a have "\<not> loops ?fh'" by (rule IH)
      moreover from l have "loops ?fh'" by (simp add: loops_def)
      ultimately show False by contradiction
    qed
  qed
  with assms show False by (simp add: loops_def)
qed

lemma insert_record_loops:
  assumes "first_free_page_no (file_hdr fh) = p" and "p \<noteq> RM_NO_PAGE"
    and "0 \<le> p" and "p < num_pages (file_hdr fh)"
    and "num_records (pages fh p) = num_records_per_page (file_hdr fh)"
    and "next_free_page_no (pages fh p) = p"
  shows "insert_record buf context fh = None"
  by (simp add: insert_record_def bind_o_def create_page_handle_loops [OF assms])

section \<open>Rollback\<close>

text \<open>
  C1. The claim: after \<open>abort\<close>, every record the transaction touched holds the bytes it
  had at begin, up to the rid of re-inserted deletes. On the code: the file holds
  \<open>[7, 7]\<close> at \<open>(1, 0)\<close> and \<open>[1, 10]\<close> at \<open>(1, 1)\<close>. The transaction updates \<open>(1, 1)\<close>
  to \<open>[2, 20]\<close>, deletes \<open>(1, 0)\<close>, deletes \<open>(1, 1)\<close>. Abort undoes the last delete by
  inserting \<open>[2, 20]\<close> into the first free slot, which is \<open>(1, 0)\<close>; it undoes the other
  delete by inserting \<open>[7, 7]\<close> into \<open>(1, 1)\<close>; it undoes the update by writing
  \<open>[1, 10]\<close> over rid \<open>(1, 1)\<close>, where \<open>[7, 7]\<close> now is. Abort returns with state ABORTED
  and the file holds \<open>[2, 20]\<close> and \<open>[1, 10]\<close>: the record \<open>[7, 7]\<close> is gone and the
  updated image \<open>[2, 20]\<close> has survived.
\<close>

theorem abort_loses_a_record:
  "\<exists>fh1 fh2 fh3 txn' fhs' fh' lm'.
     live_records fh_two =
       [(\<lparr>page_no = 1, slot_no = 0\<rparr>, [7, 7]), (\<lparr>page_no = 1, slot_no = 1\<rparr>, [1, 10])] \<and>
     update_record \<lparr>page_no = 1, slot_no = 1\<rparr> [2, 20] ctx1 fh_two = Some (Inr (), fh1) \<and>
     delete_record \<lparr>page_no = 1, slot_no = 0\<rparr> ctx1 fh1 = Some (Inr (), fh2) \<and>
     delete_record \<lparr>page_no = 1, slot_no = 1\<rparr> ctx1 fh2 = Some (Inr (), fh3) \<and>
     live_records fh3 = [] \<and>
     abort t_abort True ((\<lambda>n. None)(''t'' \<mapsto> fh3), lm0) = Some (Inr (), (txn', fhs', lm')) \<and>
     state txn' = ABORTED \<and>
     fhs' ''t'' = Some fh' \<and>
     live_records fh' =
       [(\<lparr>page_no = 1, slot_no = 0\<rparr>, [2, 20]), (\<lparr>page_no = 1, slot_no = 1\<rparr>, [1, 10])]"
  by (simp add: rm_defs fh_two_def ctx1_def grant_all_def live_records_def
        abort_def t_abort_def new_Transaction_def undo_write_def create_page_handle.simps
        lm0_def add_log_to_buffer_def flush_log_to_disk_def write_log_def is_full_def
        AbortLogRecord_def LOG_HEADER_SIZE_def unlock_def upto_0_3 upto_1_1)

section \<open>The executors\<close>

text \<open>
  C5. The claim: after \<open>beginTuple\<close>, repeated \<open>Next()\<close> calls yield exactly the records
  that satisfy the conditions, each once, every call advancing to the next satisfying
  row. On the code, for a table with the records \<open>[7, 7]\<close> and \<open>[1, 10]\<close> and no
  condition: \<open>Next()\<close> reads the record at \<^verbatim>\<open>rid_\<close> and steps the underlying scan with
  \<^verbatim>\<open>scan_->next()\<close>; it neither sets \<^verbatim>\<open>rid_\<close> nor tests the conditions (its comment
  says "move to the next record that satisfies the conditions"). The first call yields
  \<open>[7, 7]\<close>, the second call yields \<open>[7, 7]\<close> again with \<open>rid()\<close> still \<open>(1, 0)\<close>, then the
  scan is at its end: \<open>[1, 10]\<close> is never returned.
\<close>

theorem next_returns_same_record_twice:
  "\<exists>ex1 fh1 ex2 fh2 ex3 fh3.
     live_records fh_two =
       [(\<lparr>page_no = 1, slot_no = 0\<rparr>, [7, 7]), (\<lparr>page_no = 1, slot_no = 1\<rparr>, [1, 10])] \<and>
     beginTuple F ss_ex fh_two = Some (Inr (), (ex1, fh1)) \<and>
     ss_rid ex1 = \<lparr>page_no = 1, slot_no = 0\<rparr> \<and>
     SeqScan_Next ex1 fh1 = Some (Inr (Some [7, 7]), (ex2, fh2)) \<and>
     SeqScan_is_end ex2 fh2 = Inr False \<and>
     SeqScan_Next ex2 fh2 = Some (Inr (Some [7, 7]), (ex3, fh3)) \<and>
     ss_rid ex3 = \<lparr>page_no = 1, slot_no = 0\<rparr> \<and>
     SeqScan_is_end ex3 fh3 = Inr True \<and>
     SeqScan_Next ex3 fh3 = Some (Inr None, (ex3, fh3))"
  by (simp add: rm_defs fh_two_def ss_ex_def ctx1_def grant_all_def live_records_def
        upto_0_3 upto_1_1 beginTuple_def RmScan_def SeqScan_Next_def SeqScan_is_end_def
        rm_scan_is_end_def)

text \<open>
  C6. The claim: when a row fails, either all of its index entries and its record bytes
  are updated or none. On the code, for \<open>UPDATE t SET k = 2\<close> on the row \<open>(1, 10)\<close> with an
  index on \<open>k\<close>, when the exclusive lock on the record is refused: \<open>update_record\<close>
  asks for the lock after the loop over the indexes has run, so the statement raises
  with the index entry for key 1 deleted and an entry for key 2 inserted, while the
  record still holds \<open>(1, 10)\<close>.
\<close>

theorem update_row_partial:
  "\<exists>ex' fh' ihs' ih'.
     Update_Next F (ue_ex, fh_kv, ihs0) = Some (Inl TransactionAbortException, (ex', fh', ihs')) \<and>
     ihs0 (''t'', [''k'']) = Some [[1, 0, 0, 0] \<mapsto> \<lparr>page_no = 1, slot_no = 0\<rparr>] \<and>
     ihs' (''t'', [''k'']) = Some ih' \<and>
     ih' [1, 0, 0, 0] = None \<and>
     ih' [2, 0, 0, 0] = Some \<lparr>page_no = 1, slot_no = 0\<rparr> \<and>
     live_records fh_kv = [(\<lparr>page_no = 1, slot_no = 0\<rparr>, [1, 0, 0, 0, 10, 0, 0, 0])] \<and>
     live_records fh' = [(\<lparr>page_no = 1, slot_no = 0\<rparr>, [1, 0, 0, 0, 10, 0, 0, 0])]"
  by (simp add: rm_defs fh_kv_def ue_ex_def ctx_refuse_def live_records_def ihs0_def
        upto_0_3 upto_1_1 Update_Next_def update_row_def tab_kv_def col_k_def col_v_def
        tab_get_col_def value_type_def init_raw_def pad_to_def encode_int_def memcpy_at_def
        index_key_def delete_entry_def insert_entry_def)

section \<open>The analyzer\<close>

lemmas an_defs = do_analyze_def bind_e_def check_clause_def check_cond_def check_column_def
  get_table_def is_table_def tab_get_col_def cond_value_def set_value_def check_types_def
  analyze_set_clause_def convert_sv_value_def convert_sv_comp_op_def value_type_def
  init_raw_def set_int_def set_float_def int_val_def float_val_def new_Query_def
  coltype2str_def pad_to_def moved_from_def

text \<open>
  An unqualified column, when every column carries its table's name: no column of that
  name is \<open>ColumnNotFound\<close>, exactly one gives its table, more than one is
  \<open>AmbiguousColumn\<close>.
\<close>

lemma infer_tab_name_seen:
  "tn \<noteq> [] \<Longrightarrow>
   infer_tab_name cs n tn =
     (if filter (\<lambda>c. cm_name c = n) cs = [] then Inr tn else Inl (AmbiguousColumnError n))"
  by (induction cs) auto

lemma infer_tab_name_fresh:
  "\<forall>c \<in> set cs. cm_tab_name c \<noteq> [] \<Longrightarrow>
   infer_tab_name cs n [] =
     (case filter (\<lambda>c. cm_name c = n) cs of
        [] \<Rightarrow> Inr []
      | [c] \<Rightarrow> Inr (cm_tab_name c)
      | c # d # rest \<Rightarrow> Inl (AmbiguousColumnError n))"
proof (induction cs)
  case Nil
  show ?case by simp
next
  case (Cons c cs)
  show ?case
  proof (cases "cm_name c = n")
    case False
    with Cons show ?thesis by simp
  next
    case True
    from Cons.prems have "cm_tab_name c \<noteq> []" by simp
    with True show ?thesis
      by (simp add: infer_tab_name_seen split: list.splits)
  qed
qed

lemma check_column_unqualified:
  assumes "tab_name target = []" and "\<forall>c \<in> set all_cols. cm_tab_name c \<noteq> []"
  shows "check_column all_cols target =
     (case filter (\<lambda>c. cm_name c = col_name target) all_cols of
        [] \<Rightarrow> Inl (ColumnNotFoundError (col_name target))
      | [c] \<Rightarrow> Inr (target\<lparr>tab_name := cm_tab_name c\<rparr>)
      | c # d # rest \<Rightarrow> Inl (AmbiguousColumnError (col_name target)))"
proof -
  have "cm_tab_name c \<noteq> []"
    if f: "filter (\<lambda>c. cm_name c = col_name target) all_cols = [c]" for c
  proof -
    have "c \<in> set (filter (\<lambda>c. cm_name c = col_name target) all_cols)"
      unfolding f by simp
    then have "c \<in> set all_cols" by simp
    with assms(2) show ?thesis by blast
  qed
  then show ?thesis
    using assms
    by (simp add: check_column_def bind_e_def infer_tab_name_fresh split: list.splits)
qed

text \<open>
  C7. The claim: an unqualified column is resolved as above, and a column that does not
  exist is \<open>ColumnNotFound\<close> also when a table qualifier is present. The first part is
  \<open>check_column_unqualified\<close>. For the second, on the code: the branch of
  \<open>check_column\<close> for a qualified target is empty (its comment: "TODO: Make sure target
  column exists"), so \<open>t.zzz\<close> passes for a table \<open>t(k, v)\<close>, and \<open>SELECT t.zzz FROM t\<close>
  is analyzed without an error.
\<close>

theorem qualified_column_not_checked:
  "check_column [col_k, col_v] \<lparr>tab_name = ''t'', col_name = ''zzz''\<rparr>
     = Inr \<lparr>tab_name = ''t'', col_name = ''zzz''\<rparr> \<and>
   do_analyze F db0 (SelectStmt [''t''] [\<lparr>tab_name = ''t'', col_name = ''zzz''\<rparr>] [])
     = Inr \<lparr>q_parse = Some (SelectStmt [] [\<lparr>tab_name = ''t'', col_name = ''zzz''\<rparr>] []),
            q_conds = [], q_cols = [\<lparr>tab_name = ''t'', col_name = ''zzz''\<rparr>],
            q_tables = [''t''], q_set_clauses = [], q_values = []\<rparr>"
  by (simp add: an_defs db0_def tab_kv_def col_k_def col_v_def)

text \<open>
  The two paths on a literal whose type does not fit the column. A set clause tests the
  types before it encodes, so it raises \<open>IncompatibleType\<close> whatever \<open>init_raw\<close> would
  do. A WHERE condition encodes first: whenever \<open>init_raw\<close> raises on the literal, that
  error is the outcome and the type test is not reached.
\<close>

lemma set_value_mismatch:
  "value_type v \<noteq> cm_type col \<Longrightarrow> value_type v = TYPE_STRING \<or> cm_type col = TYPE_STRING \<Longrightarrow>
   set_value F col v
     = Inl (IncompatibleTypeError (coltype2str (cm_type col)) (coltype2str (value_type v)))"
  by (cases "cm_type col"; cases "val v")
     (simp_all add: set_value_def bind_e_def value_type_def)

lemma cond_value_encoder_error:
  "value_type v \<noteq> cm_type col \<Longrightarrow> value_type v = TYPE_STRING \<or> cm_type col = TYPE_STRING \<Longrightarrow>
   cond_value F col v
     = (case init_raw F (cm_len col) v of
          Inl e \<Rightarrow> Inl e
        | Inr v' \<Rightarrow> Inl (IncompatibleTypeError (coltype2str (cm_type col))
                           (coltype2str (value_type v))))"
  by (cases "cm_type col"; cases "val v")
     (auto simp: cond_value_def bind_e_def value_type_def init_raw_def check_types_def
        split: if_splits)


end
